theory Spec2Isabelle
  imports Complex_Main
begin

section \<open>The connection manager of the Samsung TV bridge (src/api.ts)\<close>

text \<open>
  The class \<open>Api\<close> keeps one WebSocket to the TV. It is single threaded and event driven:
  the caller invokes \<open>connect\<close>, \<open>addSubscriber\<close>, \<open>clearSubscribers\<close> and \<open>disconnect\<close>,
  and the event loop invokes the handlers the class registered on its transports and on
  its timers. The model is a record holding the fields of the class together with the part
  of the world the class acts on (the WebSocket objects it constructed, the armed timers,
  the clock, the requests to the file system, the console), one function per method, and a
  function \<open>handle\<close> that delivers one event. What the platform decides (whether a text
  parses as JSON, whether the WebSocket constructor accepts a URL) is a parameter.
\<close>

subsection \<open>Inbound payloads\<close>

text \<open>
  The value \<open>JSON.parse\<close> produces. A number of JavaScript is a double, and every finite
  double is a rational. An object lists its own properties, each key once.
\<close>

datatype json =
    JNull
  | JBool bool
  | JNum rat
  | JStr string
  | JArr "json list"
  | JObj "(string \<times> json) list"

datatype syntax_error = SyntaxError

text \<open>What a call of the constructor \<open>new WebSocket(url, options)\<close> throws.\<close>

datatype js_error = InvalidURL string

text \<open>
  \<open>JSON.parse\<close> and the constructor of \<open>ws\<close> belong to the platform, not to the
  repository: the functions that call them take the platform as the parameter \<open>pf\<close>.
  \<open>JSON_parse\<close> returns the value or the error \<open>JSON.parse\<close> throws. \<open>WebSocket_accepts\<close>
  says whether the constructor accepts a URL; it throws on one it cannot parse, such as
  one with a blank or a second port in the host.
\<close>

type_synonym json_parse = "string \<Rightarrow> syntax_error + json"

record platform =
  JSON_parse :: json_parse
  WebSocket_accepts :: "string \<Rightarrow> bool"

text \<open>
  \<open>v.k\<close> for a value that is neither \<open>null\<close> nor \<open>undefined\<close>; \<open>None\<close> is \<open>undefined\<close>.
  The keys read by the class (\<open>event\<close>, \<open>data\<close>, \<open>token\<close>) are properties of no string,
  number, boolean or array.
\<close>

fun get_prop :: "string \<Rightarrow> json \<Rightarrow> json option" where
  "get_prop k (JObj kvs) = map_of kvs k"
| "get_prop k v = None"

text \<open>\<open>v?.k\<close>: \<open>undefined\<close> when \<open>v\<close> is \<open>null\<close> or \<open>undefined\<close>.\<close>

fun opt_chain :: "json option \<Rightarrow> string \<Rightarrow> json option" where
  "opt_chain None k = None"
| "opt_chain (Some JNull) k = None"
| "opt_chain (Some v) k = get_prop k v"

text \<open>\<open>v != null\<close>: neither \<open>null\<close> nor \<open>undefined\<close>.\<close>

fun not_nullish :: "json option \<Rightarrow> bool" where
  "not_nullish None = False"
| "not_nullish (Some JNull) = False"
| "not_nullish (Some v) = True"

subsection \<open>Transports, timers and the console\<close>

datatype ready_state = CONNECTING | OPEN | CLOSING | CLOSED

text \<open>
  A WebSocket object of the \<open>ws\<close> library, as far as the class can observe it: the
  arguments of the constructor, \<open>readyState\<close>, and whether the token capture closure made
  by the \<open>connect\<close> call that constructed it is still among its \<open>message\<close> listeners. The
  other listeners are registered once and never removed.
\<close>

record webSocket =
  url :: string
  ws_headers :: "(string \<times> string) list"
  rejectUnauthorized :: bool
  readyState :: ready_state
  saveToken_listener :: bool

text \<open>
  What \<open>terminate()\<close> of \<open>ws\<close> 7 does to the socket: nothing when it is closed, otherwise
  its state becomes \<open>CLOSING\<close>; an open socket is destroyed, a connecting one has its
  handshake aborted. The \<open>close\<close> event comes later from the event loop.
\<close>

definition ws_terminate :: "webSocket \<Rightarrow> webSocket" where
  "ws_terminate w = (if readyState w = CLOSED then w else w\<lparr>readyState := CLOSING\<rparr>)"

datatype timer_callback = HeartbeatTimeout | ReconnectRetry

text \<open>An armed timer: its handle, its deadline in milliseconds, its callback.\<close>

type_synonym timer = "nat \<times> nat \<times> timer_callback"

datatype log_level = Debug | Info | Warn | Err

datatype log_arg = ArgStr string | ArgJson json | ArgErr string

definition EVENTS_HEARTBEAT_INTERVAL_MS :: nat where
  "EVENTS_HEARTBEAT_INTERVAL_MS = 20 * 1000"

definition EVENTS_RECONNECT_INTERNAL_MS :: nat where
  "EVENTS_RECONNECT_INTERNAL_MS = 5 * 1000"

definition WSS_PORT :: nat where
  "WSS_PORT = 8002"

subsection \<open>The state\<close>

text \<open>
  The first nine fields are the fields of the class. Callbacks and sockets are known by
  identity: a subscriber is a number, \<open>socket\<close> is an index into \<open>sockets\<close>, the list of
  all WebSocket objects constructed so far, and \<open>pingTimeout\<close> is a timer handle. The set
  of subscribers is a list without duplicates in insertion order, the order in which
  \<open>Set.forEach\<close> visits. \<open>pending_reads\<close> counts the \<open>connect\<close> calls suspended at
  \<open>await promises.readFile\<close>; \<open>writes\<close> lists the calls of \<open>promises.writeFile\<close>, each
  with its path and its data; \<open>delivered\<close> lists the calls of subscribers.
\<close>

record api =
  connected :: bool
  shouldReconnect :: bool
  host :: string
  name :: string
  headers :: "(string \<times> string) list"
  tokenFile :: "string option"
  subscribers :: "nat list"
  socket :: "nat option"
  pingTimeout :: "nat option"
  sockets :: "webSocket list"
  timers :: "timer list"
  next_timer :: nat
  clock :: nat
  pending_reads :: nat
  writes :: "(string \<times> json) list"
  delivered :: "(nat \<times> string) list"
  console :: "(log_level \<times> string \<times> log_arg list) list"

text \<open>The constructor, with its defaults; \<open>t0\<close> is the time of the clock at construction.\<close>

definition Api_new ::
  "string \<Rightarrow> string option \<Rightarrow> (string \<times> string) list option \<Rightarrow> string option \<Rightarrow> nat \<Rightarrow> api" where
  "Api_new h n hs tf t0 =
     \<lparr>connected = False, shouldReconnect = False, host = h,
      name = (case n of None \<Rightarrow> ''SamsungTvRemote'' | Some x \<Rightarrow> x),
      headers = (case hs of None \<Rightarrow> [] | Some x \<Rightarrow> x),
      tokenFile = tf, subscribers = [], socket = None, pingTimeout = None,
      sockets = [], timers = [], next_timer = 0, clock = t0, pending_reads = 0,
      writes = [], delivered = [], console = []\<rparr>"

definition log :: "log_level \<Rightarrow> string \<Rightarrow> log_arg list \<Rightarrow> api \<Rightarrow> api" where
  "log l m as s = s\<lparr>console := console s @ [(l, m, as)]\<rparr>"

definition clearTimeout :: "nat \<Rightarrow> api \<Rightarrow> api" where
  "clearTimeout h s = s\<lparr>timers := filter (\<lambda>(k, d, cb). k \<noteq> h) (timers s)\<rparr>"

definition setTimeout :: "timer_callback \<Rightarrow> nat \<Rightarrow> api \<Rightarrow> api \<times> nat" where
  "setTimeout cb ms s =
     (s\<lparr>timers := timers s @ [(next_timer s, clock s + ms, cb)],
        next_timer := Suc (next_timer s)\<rparr>,
      next_timer s)"

definition set_readyState :: "nat \<Rightarrow> ready_state \<Rightarrow> api \<Rightarrow> api" where
  "set_readyState i r s = s\<lparr>sockets := (sockets s)[i := (sockets s ! i)\<lparr>readyState := r\<rparr>]\<rparr>"

text \<open>
  \<open>this.socket?.terminate()\<close> and the listener \<open>onError\<close>. When \<open>ws\<close> 7 aborts the
  handshake of a connecting socket it emits \<open>error\<close> inside the call of \<open>terminate()\<close>, so
  \<open>onError\<close> runs there, and calls \<open>this.socket?.terminate()\<close> in its turn; the socket is
  \<open>CLOSING\<close> by then. \<open>socket\<close> names a constructed transport; a handle that names none
  is left alone.
\<close>

definition connecting :: "api \<Rightarrow> nat" where
  "connecting s =
     (case socket s of
        None \<Rightarrow> 0
      | Some i \<Rightarrow>
          if i < length (sockets s) \<and> readyState (sockets s ! i) = CONNECTING then 1 else 0)"

function terminate_socket :: "api \<Rightarrow> api" and onError :: "string \<Rightarrow> api \<Rightarrow> api" where
  "terminate_socket s =
     (case socket s of
        None \<Rightarrow> s
      | Some i \<Rightarrow>
          if i < length (sockets s) \<and> readyState (sockets s ! i) = CONNECTING
          then onError ''WebSocket was closed before the connection was established''
                 (set_readyState i CLOSING s)
          else s\<lparr>sockets := (sockets s)[i := ws_terminate (sockets s ! i)]\<rparr>)"
| "onError err s = terminate_socket (log Err ''Websocket connection error: %s'' [ArgErr err] s)"
  by pat_completeness auto
termination
  by (relation "measure (\<lambda>x. case x of Inl s \<Rightarrow> 2 * connecting s
                                       | Inr (err, s) \<Rightarrow> 2 * connecting s + 1)")
     (auto simp: connecting_def set_readyState_def log_def split: option.splits)

subsection \<open>Strings\<close>

text \<open>The decimal digits of a number, as a template literal prints it.\<close>

fun digits :: "nat \<Rightarrow> string" where
  "digits n =
     (if n < 10 then [''0123456789'' ! n]
      else digits (n div 10) @ [''0123456789'' ! (n mod 10)])"

text \<open>
  \<open>Buffer.from(s, "utf-8").toString()\<close> encodes a string in UTF-8 and decodes the bytes
  again. A HOL string has no unpaired surrogate, and on such text the round trip gives the
  string back.
\<close>

definition utf8_roundtrip :: "string \<Rightarrow> string" where
  "utf8_roundtrip s = s"

definition webSocketUrl :: "string \<Rightarrow> string \<Rightarrow> string \<Rightarrow> string" where
  "webSocketUrl h n token =
     ''wss://'' @ h @ '':'' @ digits WSS_PORT
       @ ''/api/v2/channels/samsung.remote.control?name='' @ n @ ''&token='' @ token"

subsection \<open>connect\<close>

text \<open>
  The result of an \<open>async\<close> function is a promise. \<open>connect\<close> runs up to its first \<open>await\<close>
  inside the call; when a token file is configured it suspends there, and the rest of the
  body runs when the read has completed (\<open>connect_read_done\<close>).
\<close>

datatype 'a promise = Resolved 'a | Rejected js_error | Pending

text \<open>How a promise settles when the body of the \<open>async\<close> function returns or throws.\<close>

fun settle :: "js_error + 'a \<Rightarrow> 'a promise" where
  "settle (Inl e) = Rejected e"
| "settle (Inr v) = Resolved v"

text \<open>A promise is an object, and \<open>!p\<close> of an object is \<open>false\<close>.\<close>

fun truthy_promise :: "'a promise \<Rightarrow> bool" where
  "truthy_promise p = True"

definition connect_guard :: "api \<Rightarrow> bool" where
  "connect_guard s =
     (case socket s of
        None \<Rightarrow> False
      | Some i \<Rightarrow> readyState (sockets s ! i) = OPEN \<or> readyState (sockets s ! i) = CONNECTING)"

text \<open>\<open>if (this.tokenFile)\<close>: neither \<open>undefined\<close> nor the empty string.\<close>

definition tokenFile_truthy :: "api \<Rightarrow> bool" where
  "tokenFile_truthy s = (case tokenFile s of None \<Rightarrow> False | Some p \<Rightarrow> p \<noteq> [])"

text \<open>
  Lines 65 to 101: from the URL to \<open>return true\<close>, with the token that was read. When the
  constructor throws, the body ends there: the URL has been logged, \<open>this.socket\<close> is not
  assigned and no handler is registered.
\<close>

definition connect_finish :: "platform \<Rightarrow> string \<Rightarrow> api \<Rightarrow> api \<times> (js_error + bool)" where
  "connect_finish pf token s =
     (let n = utf8_roundtrip (name s);
          u = webSocketUrl (host s) n token;
          s1 = log Debug ''Connecting to ws server url: %s'' [ArgStr u] s
      in if \<not> WebSocket_accepts pf u then (s1, Inl (InvalidURL u))
         else
           (let i = length (sockets s1);
                w = \<lparr>url = u, ws_headers = headers s1, rejectUnauthorized = False,
                     readyState = CONNECTING, saveToken_listener = False\<rparr>;
                s2 = s1\<lparr>sockets := sockets s1 @ [w], socket := Some i\<rparr>;
                s3 = (if tokenFile s2 \<noteq> None
                      then (let s' = log Info ''Registering token file save handler'' [] s2
                            in s'\<lparr>sockets := (sockets s')[i := (sockets s' ! i)\<lparr>saveToken_listener := True\<rparr>]\<rparr>)
                      else s2)
            in (s3, Inr True)))"

text \<open>
  Lines 58 to 62: the read has completed, with the content or with an error. The result
  is how the promise of the suspended call settles: \<open>Inr\<close> the value it resolves to, \<open>Inl\<close>
  the error it rejects with.
\<close>

definition connect_read_done ::
  "platform \<Rightarrow> string + string \<Rightarrow> api \<Rightarrow> api \<times> (js_error + bool)" where
  "connect_read_done pf r s =
     (case r of
        Inr content \<Rightarrow> connect_finish pf content s
      | Inl err \<Rightarrow> connect_finish pf [] (log Warn ''Unable to find token: {}'' [ArgErr err] s))"

definition connect :: "platform \<Rightarrow> api \<Rightarrow> api \<times> bool promise" where
  "connect pf s =
     (if connect_guard s then (s, Resolved True)
      else
        let s1 = terminate_socket s
        in if tokenFile_truthy s1
           then (s1\<lparr>pending_reads := Suc (pending_reads s1)\<rparr>, Pending)
           else (let (s2, r) = connect_finish pf [] s1 in (s2, settle r)))"

subsection \<open>The other methods\<close>

definition addSubscriber :: "nat \<Rightarrow> api \<Rightarrow> api" where
  "addSubscriber f s =
     (let s1 = log Info ''Adding event subscriber'' [] s
      in s1\<lparr>subscribers := (if f \<in> set (subscribers s1) then subscribers s1
                              else subscribers s1 @ [f])\<rparr>)"

definition clearSubscribers :: "api \<Rightarrow> api" where
  "clearSubscribers s = s\<lparr>subscribers := []\<rparr>"

definition disconnect :: "api \<Rightarrow> api" where
  "disconnect s = terminate_socket (s\<lparr>shouldReconnect := False\<rparr>)"

definition reconnect :: "platform \<Rightarrow> api \<Rightarrow> api" where
  "reconnect pf s =
     (if connected s \<or> \<not> shouldReconnect s then s
      else
        let (s1, p) = connect pf s
        in if \<not> truthy_promise p
           then fst (setTimeout ReconnectRetry EVENTS_RECONNECT_INTERNAL_MS
                  (log Info (''Reconnecting after delay: '' @ digits EVENTS_RECONNECT_INTERNAL_MS @ ''ms'') [] s1))
           else s1)"

definition heartbeat :: "api \<Rightarrow> api" where
  "heartbeat s =
     (let s1 = (case pingTimeout s of None \<Rightarrow> s | Some h \<Rightarrow> clearTimeout h s);
          (s2, h') = setTimeout HeartbeatTimeout EVENTS_HEARTBEAT_INTERVAL_MS s1
      in s2\<lparr>pingTimeout := Some h'\<rparr>)"

definition onOpen :: "api \<Rightarrow> api" where
  "onOpen s =
     (let s1 = log Info ''Connected to SamsungTV websocket server for event updates'' [] s
      in heartbeat (s1\<lparr>connected := True, shouldReconnect := True\<rparr>))"

definition onMessage :: "string \<Rightarrow> api \<Rightarrow> api" where
  "onMessage ev s =
     (let s1 = heartbeat s
      in s1\<lparr>delivered := delivered s1 @ map (\<lambda>f. (f, ev)) (subscribers s1)\<rparr>)"

definition onClose :: "platform \<Rightarrow> api \<Rightarrow> api" where
  "onClose pf s =
     (let s1 = log Info ''WebSocket connection closed'' [] s;
          s2 = (case pingTimeout s1 of None \<Rightarrow> s1 | Some h \<Rightarrow> clearTimeout h s1)
      in reconnect pf (s2\<lparr>socket := None, connected := False\<rparr>))"

text \<open>
  The closure \<open>saveToken\<close> of the \<open>connect\<close> call that constructed socket \<open>i\<close>. It reads
  \<open>this.tokenFile\<close> and \<open>this.socket\<close> when it runs; \<open>off\<close> removes it from the listeners of
  the socket that is current then, which holds it only if that socket is \<open>i\<close>.
\<close>

definition saveToken :: "platform \<Rightarrow> nat \<Rightarrow> string \<Rightarrow> api \<Rightarrow> api" where
  "saveToken pf i ev s =
     (let content = (case JSON_parse pf ev of Inl e \<Rightarrow> None | Inr v \<Rightarrow> Some v);
          token = opt_chain (opt_chain content ''data'') ''token''
      in case tokenFile s of
           None \<Rightarrow> s
         | Some path \<Rightarrow>
             if opt_chain content ''event'' = Some (JStr ''ms.channel.connect'') \<and> not_nullish token
             then
               (let s1 = log Info ''Saving token:'' [ArgJson (the token)] s;
                    s2 = s1\<lparr>writes := writes s1 @ [(path, the token)]\<rparr>;
                    s3 = log Info ''Unregistering token file save handler'' [] s2
                in case socket s3 of
                     None \<Rightarrow> s3
                   | Some j \<Rightarrow>
                       if j = i
                       then s3\<lparr>sockets := (sockets s3)[i := (sockets s3 ! i)\<lparr>saveToken_listener := False\<rparr>]\<rparr>
                       else s3)
             else s)"

subsection \<open>Events\<close>

text \<open>
  What the caller and the event loop can do. A transport event names the socket that
  emits it. \<open>ws\<close> emits \<open>open\<close> once on a connecting socket, \<open>close\<close> once on a socket that is
  not closed yet, frames and errors before \<open>close\<close>; it never emits \<open>data\<close>. When \<open>ws\<close> 7
  emits \<open>error\<close> from the event loop it has set the state of the socket to \<open>CLOSING\<close>
  first. A timer fires once, not before its deadline. An event that cannot occur in a
  state leaves it as it is. When the promise of a \<open>connect\<close> call rejects, what becomes of
  the rejection is the caller's business and not part of the state.
\<close>

datatype event =
    CallConnect
  | CallAddSubscriber nat
  | CallClearSubscribers
  | CallDisconnect
  | ReadFileDone "string + string"
  | WsOpen nat
  | WsPing nat
  | WsMessage nat string
  | WsClose nat
  | WsError nat string
  | TimerFire nat
  | Advance nat

text \<open>The \<open>message\<close> listeners of socket \<open>i\<close> in the order of their registration.\<close>

definition emit_message :: "platform \<Rightarrow> nat \<Rightarrow> string \<Rightarrow> api \<Rightarrow> api" where
  "emit_message pf i ev s =
     (let registered = saveToken_listener (sockets s ! i);
          s1 = onMessage ev s
      in if registered then saveToken pf i ev s1 else s1)"

definition run_callback :: "platform \<Rightarrow> timer_callback \<Rightarrow> api \<Rightarrow> api" where
  "run_callback pf cb s =
     (case cb of HeartbeatTimeout \<Rightarrow> terminate_socket s | ReconnectRetry \<Rightarrow> reconnect pf s)"

definition fire_timer :: "platform \<Rightarrow> nat \<Rightarrow> api \<Rightarrow> api" where
  "fire_timer pf h s =
     (case filter (\<lambda>(k, d, cb). k = h \<and> d \<le> clock s) (timers s) of
        [] \<Rightarrow> s
      | (k, d, cb) # rest \<Rightarrow> run_callback pf cb (clearTimeout h s))"

definition receiving :: "nat \<Rightarrow> api \<Rightarrow> bool" where
  "receiving i s =
     (i < length (sockets s) \<and>
      (readyState (sockets s ! i) = OPEN \<or> readyState (sockets s ! i) = CLOSING))"

fun handle :: "platform \<Rightarrow> event \<Rightarrow> api \<Rightarrow> api" where
  "handle pf CallConnect s = fst (connect pf s)"
| "handle pf (CallAddSubscriber f) s = addSubscriber f s"
| "handle pf CallClearSubscribers s = clearSubscribers s"
| "handle pf CallDisconnect s = disconnect s"
| "handle pf (ReadFileDone r) s =
     (if pending_reads s = 0 then s
      else fst (connect_read_done pf r (s\<lparr>pending_reads := pending_reads s - 1\<rparr>)))"
| "handle pf (WsOpen i) s =
     (if i < length (sockets s) \<and> readyState (sockets s ! i) = CONNECTING
      then onOpen (set_readyState i OPEN s) else s)"
| "handle pf (WsPing i) s = (if receiving i s then heartbeat s else s)"
| "handle pf (WsMessage i ev) s = (if receiving i s then emit_message pf i ev s else s)"
| "handle pf (WsClose i) s =
     (if i < length (sockets s) \<and> readyState (sockets s ! i) \<noteq> CLOSED
      then onClose pf (set_readyState i CLOSED s) else s)"
| "handle pf (WsError i err) s =
     (if i < length (sockets s) \<and> readyState (sockets s ! i) \<noteq> CLOSED
      then onError err (set_readyState i CLOSING s) else s)"
| "handle pf (TimerFire h) s = fire_timer pf h s"
| "handle pf (Advance d) s = s\<lparr>clock := clock s + d\<rparr>"

text \<open>A run delivers a list of events, the first one first.\<close>

fun run :: "platform \<Rightarrow> event list \<Rightarrow> api \<Rightarrow> api" where
  "run pf [] s = s"
| "run pf (e # es) s = run pf es (handle pf e s)"


subsection \<open>Notions used in the statements\<close>

fun is_open :: "event \<Rightarrow> bool" where
  "is_open (WsOpen i) = True"
| "is_open e = False"

text \<open>
  An instance of the platform for evaluating the model on concrete runs. \<open>example_parse\<close>
  is \<open>JSON.parse\<close> on a few frames of the TV; every other text is taken as malformed.
  \<open>example_accepts\<close> refuses a URL with a blank in its authority, as the URL parser of the
  constructor does, and accepts every other URL.
\<close>

definition example_parse :: json_parse where
  "example_parse t =
     (if t = ''{\"event\":\"ms.channel.connect\",\"data\":{\"token\":\"NEWTOK\"}}''
      then Inr (JObj [(''event'', JStr ''ms.channel.connect''),
                      (''data'', JObj [(''token'', JStr ''NEWTOK'')])])
      else if t = ''{\"event\":\"ms.channel.connect\",\"data\":{\"token\":\"OTHER\"}}''
      then Inr (JObj [(''event'', JStr ''ms.channel.connect''),
                      (''data'', JObj [(''token'', JStr ''OTHER'')])])
      else if t = ''{\"event\":\"ed.edenTV.update\"}''
      then Inr (JObj [(''event'', JStr ''ed.edenTV.update'')])
      else if t = ''null'' then Inr JNull
      else Inl SyntaxError)"

definition example_accepts :: "string \<Rightarrow> bool" where
  "example_accepts u = (CHR '' '' \<notin> set (takeWhile (\<lambda>c. c \<noteq> CHR ''/'') (drop 6 u)))"

definition example_platform :: platform where
  "example_platform = \<lparr>JSON_parse = example_parse, WebSocket_accepts = example_accepts\<rparr>"

fun is_add :: "event \<Rightarrow> bool" where
  "is_add (CallAddSubscriber f) = True"
| "is_add e = False"

subsection \<open>URL encoding, as the specification words it\<close>

text \<open>
  The specification calls the \<open>name\<close> parameter of the connection URL the URL-encoded
  client name. This definition follows those words, not the source, which has no function
  of that kind; it is \<open>encodeURIComponent\<close>: letters, digits and \<open>- _ . ! ~ * ' ( )\<close>
  stay, every other character becomes \<open>%XX\<close> for each byte of its UTF-8 encoding.
\<close>

definition unreserved :: "char \<Rightarrow> bool" where
  "unreserved c =
     (c \<in> set ''ABCDEFGHIJKLMNOPQRSTUVWXYZabcdefghijklmnopqrstuvwxyz0123456789-_.!~*()''
      \<or> c = CHR 0x27)"

definition percent :: "nat \<Rightarrow> string" where
  "percent b = [CHR ''%'', ''0123456789ABCDEF'' ! (b div 16), ''0123456789ABCDEF'' ! (b mod 16)]"

definition urlencode_char_spec :: "char \<Rightarrow> string" where
  "urlencode_char_spec c =
     (if unreserved c then [c]
      else if of_char c < (128 :: nat) then percent (of_char c)
      else percent (192 + of_char c div 64) @ percent (128 + of_char c mod 64))"

definition urlencode_spec :: "string \<Rightarrow> string" where
  "urlencode_spec t = concat (map urlencode_char_spec t)"

subsection \<open>The heartbeat timer\<close>

text \<open>
  What holds of the timers in every state the manager reaches: at most one is armed, it is
  the heartbeat timer whose handle \<open>pingTimeout\<close> holds, and its deadline is at most one
  heartbeat interval away.
\<close>

definition timers_ok :: "api \<Rightarrow> bool" where
  "timers_ok s =
     ((case pingTimeout s of None \<Rightarrow> True | Some h \<Rightarrow> h < next_timer s) \<and>
      (case timers s of
         [] \<Rightarrow> True
       | [(h, d, cb)] \<Rightarrow>
           cb = HeartbeatTimeout \<and> pingTimeout s = Some h
           \<and> d \<le> clock s + EVENTS_HEARTBEAT_INTERVAL_MS
       | t # t' # ts \<Rightarrow> False))"

text \<open>The frames of socket \<open>i\<close>: a ping or a message it receives.\<close>

fun is_frame :: "nat \<Rightarrow> event \<Rightarrow> bool" where
  "is_frame i (WsPing j) = (j = i)"
| "is_frame i (WsMessage j ev) = (j = i)"
| "is_frame i e = False"

subsection \<open>The URL of a reconnection\<close>

text \<open>
  What holds in every state the manager reaches, for a given platform: without a token
  file no read is pending and, once a transport has been constructed, the constructor has
  accepted the URL with the empty token, the only URL such a manager ever builds; and
  \<open>shouldReconnect\<close> is set only after a transport has been constructed.
\<close>

definition url_tried :: "platform \<Rightarrow> api \<Rightarrow> bool" where
  "url_tried pf s =
     ((tokenFile_truthy s \<or>
         (pending_reads s = 0 \<and>
          (sockets s = [] \<or> WebSocket_accepts pf (webSocketUrl (host s) (name s) []))))
      \<and> (shouldReconnect s \<longrightarrow> sockets s \<noteq> []))"

section \<open>What each method leaves unchanged\<close>

text \<open>
  \<open>this.socket?.terminate()\<close> in closed form: on a connecting socket the handshake is
  aborted and \<open>onError\<close> logs the error that \<open>ws\<close> emits; its own call of \<open>terminate()\<close>
  finds the socket \<open>CLOSING\<close> and changes nothing.
\<close>

declare terminate_socket.simps [simp del] onError.simps [simp del]

lemma terminate_socket_eq:
  "terminate_socket s =
     (case socket s of
        None \<Rightarrow> s
      | Some i \<Rightarrow>
          if i < length (sockets s) \<and> readyState (sockets s ! i) = CONNECTING
          then log Err ''Websocket connection error: %s''
                 [ArgErr ''WebSocket was closed before the connection was established'']
                 (set_readyState i CLOSING s)
          else s\<lparr>sockets := (sockets s)[i := ws_terminate (sockets s ! i)]\<rparr>)"
proof (cases "socket s")
  case None
  then show ?thesis
    by (simp add: terminate_socket.simps [of s])
next
  case (Some i)
  show ?thesis
  proof (cases "i < length (sockets s) \<and> readyState (sockets s ! i) = CONNECTING")
    case False
    with Some show ?thesis
      by (auto simp: terminate_socket.simps [of s])
  next
    case True
    define s' where "s' = log Err ''Websocket connection error: %s''
        [ArgErr ''WebSocket was closed before the connection was established'']
        (set_readyState i CLOSING s)"
    have c: "socket s' = Some i" "i < length (sockets s')" "readyState (sockets s' ! i) = CLOSING"
      using Some True by (simp_all add: s'_def log_def set_readyState_def)
    have "(sockets s')[i := ws_terminate (sockets s' ! i)] = sockets s'"
      using c by (simp add: ws_terminate_def list_update_same_conv)
    then have "terminate_socket s' = s'"
      using c by (simp add: terminate_socket.simps [of s'])
    then show ?thesis
      using Some True by (simp add: terminate_socket.simps [of s] onError.simps s'_def)
  qed
qed

text \<open>
  \<open>reconnect()\<close> tests \<open>!this.connect()\<close>, the negation of a promise, which is false: the
  method is its guard followed by \<open>connect()\<close>. The lemmas after it list, method by method,
  the fields a call does not change.
\<close>

lemma reconnect_eq:
  "reconnect pf s = (if connected s \<or> \<not> shouldReconnect s then s else fst (connect pf s))"
  by (simp add: reconnect_def case_prod_beta)

lemma log_frame [simp]:
  "api.connected (log l m as s) = api.connected s"
  "shouldReconnect (log l m as s) = shouldReconnect s"
  "host (log l m as s) = host s"
  "api.name (log l m as s) = api.name s"
  "headers (log l m as s) = headers s"
  "tokenFile (log l m as s) = tokenFile s"
  "subscribers (log l m as s) = subscribers s"
  "socket (log l m as s) = socket s"
  "pingTimeout (log l m as s) = pingTimeout s"
  "sockets (log l m as s) = sockets s"
  "timers (log l m as s) = timers s"
  "next_timer (log l m as s) = next_timer s"
  "clock (log l m as s) = clock s"
  "pending_reads (log l m as s) = pending_reads s"
  "writes (log l m as s) = writes s"
  "delivered (log l m as s) = delivered s"
  by (simp_all add: log_def)

lemma clearTimeout_frame [simp]:
  "api.connected (clearTimeout h s) = api.connected s"
  "shouldReconnect (clearTimeout h s) = shouldReconnect s"
  "host (clearTimeout h s) = host s"
  "api.name (clearTimeout h s) = api.name s"
  "headers (clearTimeout h s) = headers s"
  "tokenFile (clearTimeout h s) = tokenFile s"
  "subscribers (clearTimeout h s) = subscribers s"
  "socket (clearTimeout h s) = socket s"
  "pingTimeout (clearTimeout h s) = pingTimeout s"
  "sockets (clearTimeout h s) = sockets s"
  "next_timer (clearTimeout h s) = next_timer s"
  "clock (clearTimeout h s) = clock s"
  "pending_reads (clearTimeout h s) = pending_reads s"
  "writes (clearTimeout h s) = writes s"
  "delivered (clearTimeout h s) = delivered s"
  "console (clearTimeout h s) = console s"
  by (simp_all add: clearTimeout_def)

lemma setTimeout_frame [simp]:
  "api.connected (fst (setTimeout cb ms s)) = api.connected s"
  "shouldReconnect (fst (setTimeout cb ms s)) = shouldReconnect s"
  "host (fst (setTimeout cb ms s)) = host s"
  "api.name (fst (setTimeout cb ms s)) = api.name s"
  "headers (fst (setTimeout cb ms s)) = headers s"
  "tokenFile (fst (setTimeout cb ms s)) = tokenFile s"
  "subscribers (fst (setTimeout cb ms s)) = subscribers s"
  "socket (fst (setTimeout cb ms s)) = socket s"
  "pingTimeout (fst (setTimeout cb ms s)) = pingTimeout s"
  "sockets (fst (setTimeout cb ms s)) = sockets s"
  "clock (fst (setTimeout cb ms s)) = clock s"
  "pending_reads (fst (setTimeout cb ms s)) = pending_reads s"
  "writes (fst (setTimeout cb ms s)) = writes s"
  "delivered (fst (setTimeout cb ms s)) = delivered s"
  "console (fst (setTimeout cb ms s)) = console s"
  by (simp_all add: setTimeout_def)

lemma set_readyState_frame [simp]:
  "api.connected (set_readyState i r s) = api.connected s"
  "shouldReconnect (set_readyState i r s) = shouldReconnect s"
  "host (set_readyState i r s) = host s"
  "api.name (set_readyState i r s) = api.name s"
  "headers (set_readyState i r s) = headers s"
  "tokenFile (set_readyState i r s) = tokenFile s"
  "subscribers (set_readyState i r s) = subscribers s"
  "socket (set_readyState i r s) = socket s"
  "pingTimeout (set_readyState i r s) = pingTimeout s"
  "timers (set_readyState i r s) = timers s"
  "next_timer (set_readyState i r s) = next_timer s"
  "clock (set_readyState i r s) = clock s"
  "pending_reads (set_readyState i r s) = pending_reads s"
  "writes (set_readyState i r s) = writes s"
  "delivered (set_readyState i r s) = delivered s"
  "console (set_readyState i r s) = console s"
  by (simp_all add: set_readyState_def)

lemma terminate_socket_frame [simp]:
  "api.connected (terminate_socket s) = api.connected s"
  "shouldReconnect (terminate_socket s) = shouldReconnect s"
  "host (terminate_socket s) = host s"
  "api.name (terminate_socket s) = api.name s"
  "headers (terminate_socket s) = headers s"
  "tokenFile (terminate_socket s) = tokenFile s"
  "subscribers (terminate_socket s) = subscribers s"
  "socket (terminate_socket s) = socket s"
  "pingTimeout (terminate_socket s) = pingTimeout s"
  "timers (terminate_socket s) = timers s"
  "next_timer (terminate_socket s) = next_timer s"
  "clock (terminate_socket s) = clock s"
  "pending_reads (terminate_socket s) = pending_reads s"
  "writes (terminate_socket s) = writes s"
  "delivered (terminate_socket s) = delivered s"
  by (simp_all add: terminate_socket_eq split: option.splits)

lemma onError_frame [simp]:
  "api.connected (onError err s) = api.connected s"
  "shouldReconnect (onError err s) = shouldReconnect s"
  "host (onError err s) = host s"
  "api.name (onError err s) = api.name s"
  "headers (onError err s) = headers s"
  "tokenFile (onError err s) = tokenFile s"
  "subscribers (onError err s) = subscribers s"
  "socket (onError err s) = socket s"
  "pingTimeout (onError err s) = pingTimeout s"
  "timers (onError err s) = timers s"
  "next_timer (onError err s) = next_timer s"
  "clock (onError err s) = clock s"
  "pending_reads (onError err s) = pending_reads s"
  "writes (onError err s) = writes s"
  "delivered (onError err s) = delivered s"
  by (simp_all add: onError.simps)

lemma heartbeat_frame [simp]:
  "api.connected (heartbeat s) = api.connected s"
  "shouldReconnect (heartbeat s) = shouldReconnect s"
  "host (heartbeat s) = host s"
  "api.name (heartbeat s) = api.name s"
  "headers (heartbeat s) = headers s"
  "tokenFile (heartbeat s) = tokenFile s"
  "subscribers (heartbeat s) = subscribers s"
  "socket (heartbeat s) = socket s"
  "sockets (heartbeat s) = sockets s"
  "clock (heartbeat s) = clock s"
  "pending_reads (heartbeat s) = pending_reads s"
  "writes (heartbeat s) = writes s"
  "delivered (heartbeat s) = delivered s"
  "console (heartbeat s) = console s"
  by (simp_all add: heartbeat_def Let_def case_prod_beta split: option.splits)

lemma connect_finish_frame [simp]:
  "api.connected (fst (connect_finish pf t s)) = api.connected s"
  "shouldReconnect (fst (connect_finish pf t s)) = shouldReconnect s"
  "host (fst (connect_finish pf t s)) = host s"
  "api.name (fst (connect_finish pf t s)) = api.name s"
  "headers (fst (connect_finish pf t s)) = headers s"
  "tokenFile (fst (connect_finish pf t s)) = tokenFile s"
  "subscribers (fst (connect_finish pf t s)) = subscribers s"
  "pingTimeout (fst (connect_finish pf t s)) = pingTimeout s"
  "timers (fst (connect_finish pf t s)) = timers s"
  "next_timer (fst (connect_finish pf t s)) = next_timer s"
  "clock (fst (connect_finish pf t s)) = clock s"
  "pending_reads (fst (connect_finish pf t s)) = pending_reads s"
  "writes (fst (connect_finish pf t s)) = writes s"
  "delivered (fst (connect_finish pf t s)) = delivered s"
  by (simp_all add: connect_finish_def Let_def)

lemma connect_read_done_frame [simp]:
  "api.connected (fst (connect_read_done pf r s)) = api.connected s"
  "shouldReconnect (fst (connect_read_done pf r s)) = shouldReconnect s"
  "host (fst (connect_read_done pf r s)) = host s"
  "api.name (fst (connect_read_done pf r s)) = api.name s"
  "headers (fst (connect_read_done pf r s)) = headers s"
  "tokenFile (fst (connect_read_done pf r s)) = tokenFile s"
  "subscribers (fst (connect_read_done pf r s)) = subscribers s"
  "pingTimeout (fst (connect_read_done pf r s)) = pingTimeout s"
  "timers (fst (connect_read_done pf r s)) = timers s"
  "next_timer (fst (connect_read_done pf r s)) = next_timer s"
  "clock (fst (connect_read_done pf r s)) = clock s"
  "pending_reads (fst (connect_read_done pf r s)) = pending_reads s"
  "writes (fst (connect_read_done pf r s)) = writes s"
  "delivered (fst (connect_read_done pf r s)) = delivered s"
  by (simp_all add: connect_read_done_def split: sum.splits)

lemma connect_frame [simp]:
  "api.connected (fst (connect pf s)) = api.connected s"
  "shouldReconnect (fst (connect pf s)) = shouldReconnect s"
  "host (fst (connect pf s)) = host s"
  "api.name (fst (connect pf s)) = api.name s"
  "headers (fst (connect pf s)) = headers s"
  "tokenFile (fst (connect pf s)) = tokenFile s"
  "subscribers (fst (connect pf s)) = subscribers s"
  "pingTimeout (fst (connect pf s)) = pingTimeout s"
  "timers (fst (connect pf s)) = timers s"
  "next_timer (fst (connect pf s)) = next_timer s"
  "clock (fst (connect pf s)) = clock s"
  "writes (fst (connect pf s)) = writes s"
  "delivered (fst (connect pf s)) = delivered s"
  by (simp_all add: connect_def Let_def case_prod_beta)

lemma reconnect_frame [simp]:
  "api.connected (reconnect pf s) = api.connected s"
  "shouldReconnect (reconnect pf s) = shouldReconnect s"
  "host (reconnect pf s) = host s"
  "api.name (reconnect pf s) = api.name s"
  "headers (reconnect pf s) = headers s"
  "tokenFile (reconnect pf s) = tokenFile s"
  "subscribers (reconnect pf s) = subscribers s"
  "pingTimeout (reconnect pf s) = pingTimeout s"
  "timers (reconnect pf s) = timers s"
  "next_timer (reconnect pf s) = next_timer s"
  "clock (reconnect pf s) = clock s"
  "writes (reconnect pf s) = writes s"
  "delivered (reconnect pf s) = delivered s"
  by (simp_all add: reconnect_eq)

lemma addSubscriber_frame [simp]:
  "api.connected (addSubscriber f s) = api.connected s"
  "shouldReconnect (addSubscriber f s) = shouldReconnect s"
  "host (addSubscriber f s) = host s"
  "api.name (addSubscriber f s) = api.name s"
  "headers (addSubscriber f s) = headers s"
  "tokenFile (addSubscriber f s) = tokenFile s"
  "socket (addSubscriber f s) = socket s"
  "pingTimeout (addSubscriber f s) = pingTimeout s"
  "sockets (addSubscriber f s) = sockets s"
  "timers (addSubscriber f s) = timers s"
  "next_timer (addSubscriber f s) = next_timer s"
  "clock (addSubscriber f s) = clock s"
  "pending_reads (addSubscriber f s) = pending_reads s"
  "writes (addSubscriber f s) = writes s"
  "delivered (addSubscriber f s) = delivered s"
  by (simp_all add: addSubscriber_def Let_def)

lemma clearSubscribers_frame [simp]:
  "api.connected (clearSubscribers s) = api.connected s"
  "shouldReconnect (clearSubscribers s) = shouldReconnect s"
  "host (clearSubscribers s) = host s"
  "api.name (clearSubscribers s) = api.name s"
  "headers (clearSubscribers s) = headers s"
  "tokenFile (clearSubscribers s) = tokenFile s"
  "socket (clearSubscribers s) = socket s"
  "pingTimeout (clearSubscribers s) = pingTimeout s"
  "sockets (clearSubscribers s) = sockets s"
  "timers (clearSubscribers s) = timers s"
  "next_timer (clearSubscribers s) = next_timer s"
  "clock (clearSubscribers s) = clock s"
  "pending_reads (clearSubscribers s) = pending_reads s"
  "writes (clearSubscribers s) = writes s"
  "delivered (clearSubscribers s) = delivered s"
  "console (clearSubscribers s) = console s"
  by (simp_all add: clearSubscribers_def)

lemma disconnect_frame [simp]:
  "api.connected (disconnect s) = api.connected s"
  "host (disconnect s) = host s"
  "api.name (disconnect s) = api.name s"
  "headers (disconnect s) = headers s"
  "tokenFile (disconnect s) = tokenFile s"
  "subscribers (disconnect s) = subscribers s"
  "socket (disconnect s) = socket s"
  "pingTimeout (disconnect s) = pingTimeout s"
  "timers (disconnect s) = timers s"
  "next_timer (disconnect s) = next_timer s"
  "clock (disconnect s) = clock s"
  "pending_reads (disconnect s) = pending_reads s"
  "writes (disconnect s) = writes s"
  "delivered (disconnect s) = delivered s"
  by (simp_all add: disconnect_def)

lemma onOpen_frame [simp]:
  "host (onOpen s) = host s"
  "api.name (onOpen s) = api.name s"
  "headers (onOpen s) = headers s"
  "tokenFile (onOpen s) = tokenFile s"
  "subscribers (onOpen s) = subscribers s"
  "socket (onOpen s) = socket s"
  "sockets (onOpen s) = sockets s"
  "clock (onOpen s) = clock s"
  "pending_reads (onOpen s) = pending_reads s"
  "writes (onOpen s) = writes s"
  "delivered (onOpen s) = delivered s"
  by (simp_all add: onOpen_def Let_def)

lemma onMessage_frame [simp]:
  "api.connected (onMessage ev s) = api.connected s"
  "shouldReconnect (onMessage ev s) = shouldReconnect s"
  "host (onMessage ev s) = host s"
  "api.name (onMessage ev s) = api.name s"
  "headers (onMessage ev s) = headers s"
  "tokenFile (onMessage ev s) = tokenFile s"
  "subscribers (onMessage ev s) = subscribers s"
  "socket (onMessage ev s) = socket s"
  "sockets (onMessage ev s) = sockets s"
  "clock (onMessage ev s) = clock s"
  "pending_reads (onMessage ev s) = pending_reads s"
  "writes (onMessage ev s) = writes s"
  "console (onMessage ev s) = console s"
  by (simp_all add: onMessage_def Let_def)

lemma saveToken_frame [simp]:
  "api.connected (saveToken pf i ev s) = api.connected s"
  "shouldReconnect (saveToken pf i ev s) = shouldReconnect s"
  "host (saveToken pf i ev s) = host s"
  "api.name (saveToken pf i ev s) = api.name s"
  "headers (saveToken pf i ev s) = headers s"
  "tokenFile (saveToken pf i ev s) = tokenFile s"
  "subscribers (saveToken pf i ev s) = subscribers s"
  "socket (saveToken pf i ev s) = socket s"
  "pingTimeout (saveToken pf i ev s) = pingTimeout s"
  "timers (saveToken pf i ev s) = timers s"
  "next_timer (saveToken pf i ev s) = next_timer s"
  "clock (saveToken pf i ev s) = clock s"
  "pending_reads (saveToken pf i ev s) = pending_reads s"
  "delivered (saveToken pf i ev s) = delivered s"
  by (simp_all add: saveToken_def Let_def split: option.splits)

lemma emit_message_frame [simp]:
  "api.connected (emit_message pf i ev s) = api.connected s"
  "shouldReconnect (emit_message pf i ev s) = shouldReconnect s"
  "host (emit_message pf i ev s) = host s"
  "api.name (emit_message pf i ev s) = api.name s"
  "headers (emit_message pf i ev s) = headers s"
  "tokenFile (emit_message pf i ev s) = tokenFile s"
  "subscribers (emit_message pf i ev s) = subscribers s"
  "socket (emit_message pf i ev s) = socket s"
  "clock (emit_message pf i ev s) = clock s"
  "pending_reads (emit_message pf i ev s) = pending_reads s"
  by (simp_all add: emit_message_def Let_def)

lemma onClose_frame [simp]:
  "shouldReconnect (onClose pf s) = shouldReconnect s"
  "host (onClose pf s) = host s"
  "api.name (onClose pf s) = api.name s"
  "headers (onClose pf s) = headers s"
  "tokenFile (onClose pf s) = tokenFile s"
  "subscribers (onClose pf s) = subscribers s"
  "pingTimeout (onClose pf s) = pingTimeout s"
  "next_timer (onClose pf s) = next_timer s"
  "clock (onClose pf s) = clock s"
  "writes (onClose pf s) = writes s"
  "delivered (onClose pf s) = delivered s"
  by (simp_all add: onClose_def Let_def split: option.splits)

lemma run_callback_frame [simp]:
  "api.connected (run_callback pf cb s) = api.connected s"
  "shouldReconnect (run_callback pf cb s) = shouldReconnect s"
  "host (run_callback pf cb s) = host s"
  "api.name (run_callback pf cb s) = api.name s"
  "headers (run_callback pf cb s) = headers s"
  "tokenFile (run_callback pf cb s) = tokenFile s"
  "subscribers (run_callback pf cb s) = subscribers s"
  "pingTimeout (run_callback pf cb s) = pingTimeout s"
  "timers (run_callback pf cb s) = timers s"
  "next_timer (run_callback pf cb s) = next_timer s"
  "clock (run_callback pf cb s) = clock s"
  "writes (run_callback pf cb s) = writes s"
  "delivered (run_callback pf cb s) = delivered s"
  by (simp_all add: run_callback_def split: timer_callback.splits)

lemma fire_timer_frame [simp]:
  "api.connected (fire_timer pf h s) = api.connected s"
  "shouldReconnect (fire_timer pf h s) = shouldReconnect s"
  "host (fire_timer pf h s) = host s"
  "api.name (fire_timer pf h s) = api.name s"
  "headers (fire_timer pf h s) = headers s"
  "tokenFile (fire_timer pf h s) = tokenFile s"
  "subscribers (fire_timer pf h s) = subscribers s"
  "pingTimeout (fire_timer pf h s) = pingTimeout s"
  "next_timer (fire_timer pf h s) = next_timer s"
  "clock (fire_timer pf h s) = clock s"
  "writes (fire_timer pf h s) = writes s"
  "delivered (fire_timer pf h s) = delivered s"
  by (simp_all add: fire_timer_def split: list.splits)

lemma onOpen_flags [simp]: "connected (onOpen s)" "shouldReconnect (onOpen s)"
  by (simp_all add: onOpen_def Let_def)

lemma onClose_connected [simp]: "\<not> connected (onClose pf s)"
  by (simp add: onClose_def Let_def split: option.splits)

lemma disconnect_shouldReconnect [simp]: "\<not> shouldReconnect (disconnect s)"
  by (simp add: disconnect_def)

section \<open>The flags \<open>connected\<close> and \<open>shouldReconnect\<close>\<close>

lemma length_sockets_terminate_socket [simp]:
  "length (sockets (terminate_socket s)) = length (sockets s)"
  by (simp add: terminate_socket_eq set_readyState_def split: option.splits)

lemma length_sockets_onError [simp]:
  "length (sockets (onError err s)) = length (sockets s)"
  by (simp add: onError.simps)

lemma handle_shouldReconnect:
  "\<not> is_open e \<Longrightarrow> shouldReconnect (handle p e s) \<Longrightarrow> shouldReconnect s"
  by (cases e) (simp_all add: disconnect_def split: if_splits)

lemma handle_connected:
  "connected s \<Longrightarrow> \<not> connected (handle p e s) \<Longrightarrow> \<exists>i. e = WsClose i"
  by (cases e) (simp_all split: if_splits)

lemma run_no_open_shouldReconnect:
  "\<forall>e \<in> set es. \<not> is_open e \<Longrightarrow> \<not> shouldReconnect s \<Longrightarrow> \<not> shouldReconnect (run p es s)"
proof (induction es arbitrary: s)
  case Nil
  then show ?case by simp
next
  case (Cons e es)
  from Cons.prems have "\<not> shouldReconnect (handle p e s)"
    using handle_shouldReconnect [of e p s] by auto
  with Cons show ?case by simp
qed

lemma onClose_without_reconnect:
  "\<not> shouldReconnect s \<Longrightarrow>
     sockets (onClose pf s) = sockets s \<and> pending_reads (onClose pf s) = pending_reads s"
  by (simp add: onClose_def Let_def reconnect_eq split: option.splits)

lemma handle_close_without_reconnect:
  "\<not> shouldReconnect s \<Longrightarrow>
     length (sockets (handle p (WsClose i) s)) = length (sockets s)
     \<and> pending_reads (handle p (WsClose i) s) = pending_reads s"
  by (simp add: onClose_without_reconnect set_readyState_def)

lemma handle_error_no_connect:
  "length (sockets (handle p (WsError i err) s)) = length (sockets s)
   \<and> pending_reads (handle p (WsError i err) s) = pending_reads s"
  by (simp add: set_readyState_def)

text \<open>The definitions a concrete run is evaluated with.\<close>

lemmas eval_defs = Api_new_def connect_def connect_guard_def tokenFile_truthy_def terminate_socket_eq
  connect_finish_def connect_read_done_def webSocketUrl_def utf8_roundtrip_def log_def Let_def WSS_PORT_def
  ws_terminate_def heartbeat_def onOpen_def onClose_def onError.simps onMessage_def reconnect_def
  example_platform_def example_accepts_def
  setTimeout_def clearTimeout_def set_readyState_def emit_message_def saveToken_def fire_timer_def
  run_callback_def receiving_def disconnect_def addSubscriber_def clearSubscribers_def
  EVENTS_HEARTBEAT_INTERVAL_MS_def EVENTS_RECONNECT_INTERNAL_MS_def

text \<open>
  Claim C1. After \<open>disconnect()\<close>, whatever events follow, as long as no transport opens:
  \<open>shouldReconnect\<close> stays false, \<open>reconnect()\<close> returns at once leaving the state as it
  is, and a close or error event delivered then constructs no transport and starts no read
  of the token file, which is all \<open>connect()\<close> could do past its guard. Moreover an event
  that turns \<open>shouldReconnect\<close> from false to true is an open event.
\<close>

theorem no_reconnect_after_disconnect:
  assumes "\<forall>e \<in> set es. \<not> is_open e"
  shows "(let s' = run pf es (disconnect s)
          in \<not> shouldReconnect s' \<and> reconnect pf s' = s'
             \<and> (\<forall>i. length (sockets (handle pf (WsClose i) s')) = length (sockets s')
                      \<and> pending_reads (handle pf (WsClose i) s') = pending_reads s'
                      \<and> \<not> shouldReconnect (handle pf (WsClose i) s'))
             \<and> (\<forall>i err. length (sockets (handle pf (WsError i err) s')) = length (sockets s')
                      \<and> pending_reads (handle pf (WsError i err) s') = pending_reads s'
                      \<and> \<not> shouldReconnect (handle pf (WsError i err) s')))
         \<and> (\<not> shouldReconnect s \<and> shouldReconnect (handle pf e s) \<longrightarrow> is_open e)"
proof -
  define s' where "s' = run pf es (disconnect s)"
  have off: "\<not> shouldReconnect s'"
    unfolding s'_def using assms by (intro run_no_open_shouldReconnect) simp_all
  have stay: "\<not> shouldReconnect (handle pf e' s')" if "\<not> is_open e'" for e'
    using off that handle_shouldReconnect by blast
  have "reconnect pf s' = s'"
    using off by (simp add: reconnect_eq)
  moreover have "\<not> shouldReconnect (handle pf (WsClose i) s')" for i
    by (rule stay) simp
  moreover have "\<not> shouldReconnect (handle pf (WsError i err) s')" for i err
    by (rule stay) simp
  moreover have "\<not> shouldReconnect s \<and> shouldReconnect (handle pf e s) \<longrightarrow> is_open e"
    using handle_shouldReconnect by blast
  ultimately show ?thesis
    using off handle_close_without_reconnect [OF off] handle_error_no_connect
    unfolding s'_def [symmetric] Let_def by blast
qed

theorem no_reconnect_after_disconnect_witness:
  "\<not> is_open (WsError 0 ''ECONNRESET'') \<and> \<not> is_open (WsClose 0)
   \<and> shouldReconnect (run example_platform [CallConnect, WsOpen 0] (Api_new ''192.168.1.10'' None None None 0))
   \<and> \<not> shouldReconnect (run example_platform [WsError 0 ''ECONNRESET'', WsClose 0]
         (disconnect (run example_platform [CallConnect, WsOpen 0] (Api_new ''192.168.1.10'' None None None 0))))"
proof -
  have h: "\<forall>e \<in> set [WsError 0 ''ECONNRESET'', WsClose 0]. \<not> is_open e"
    by simp
  have before: "shouldReconnect (run example_platform [CallConnect, WsOpen 0] (Api_new ''192.168.1.10'' None None None 0))"
    by (simp add: eval_defs)
  from no_reconnect_after_disconnect [OF h, of example_platform
      "run example_platform [CallConnect, WsOpen 0] (Api_new ''192.168.1.10'' None None None 0)"]
  have "\<not> shouldReconnect (run example_platform [WsError 0 ''ECONNRESET'', WsClose 0]
         (disconnect (run example_platform [CallConnect, WsOpen 0] (Api_new ''192.168.1.10'' None None None 0))))"
    unfolding Let_def by blast
  with before show ?thesis by simp
qed

text \<open>
  Claim C3. A call of \<open>connect()\<close> while the current transport is open or connecting
  returns \<open>true\<close> at once, without suspending, and leaves the whole state as it is: no
  second transport is constructed, and the list of transports is the same.
\<close>

theorem connect_guard_idempotent:
  assumes "socket s = Some i"
    and "readyState (sockets s ! i) = OPEN \<or> readyState (sockets s ! i) = CONNECTING"
  shows "connect pf s = (s, Resolved True) \<and> sockets (fst (connect pf s)) = sockets s
         \<and> handle pf CallConnect s = s"
  using assms by (simp add: connect_def connect_guard_def)

theorem connect_guard_idempotent_witness:
  "(let s = fst (connect example_platform (Api_new ''192.168.1.10'' None None None 0))
    in socket s = Some 0 \<and> readyState (sockets s ! 0) = CONNECTING
       \<and> connect example_platform s = (s, Resolved True)
       \<and> length (sockets (fst (connect example_platform s))) = 1)"
  using connect_guard_idempotent
    [of "fst (connect example_platform (Api_new ''192.168.1.10'' None None None 0))" 0 example_platform]
  by (simp add: eval_defs)

text \<open>
  Claim C10. \<open>disconnect()\<close> does not touch \<open>connected\<close>: it clears \<open>shouldReconnect\<close> and
  terminates the current transport, and nothing else; when that transport was still
  connecting, the error \<open>ws\<close> emits inside \<open>terminate()\<close> is logged. An event that turns
  \<open>connected\<close> from true to false is a close event of a transport.
\<close>

theorem disconnect_keeps_connected:
  "connected (disconnect s) = connected s
   \<and> disconnect s =
       s\<lparr>shouldReconnect := False,
         sockets := (case socket s of None \<Rightarrow> sockets s
                     | Some i \<Rightarrow> (sockets s)[i := ws_terminate (sockets s ! i)]),
         console := console s @
           (if connecting s = 1
            then [(Err, ''Websocket connection error: %s'',
                   [ArgErr ''WebSocket was closed before the connection was established''])]
            else [])\<rparr>
   \<and> (connected s \<and> \<not> connected (handle pf e s) \<longrightarrow> (\<exists>i. e = WsClose i))"
proof -
  have "disconnect s =
       s\<lparr>shouldReconnect := False,
         sockets := (case socket s of None \<Rightarrow> sockets s
                     | Some i \<Rightarrow> (sockets s)[i := ws_terminate (sockets s ! i)]),
         console := console s @
           (if connecting s = 1
            then [(Err, ''Websocket connection error: %s'',
                   [ArgErr ''WebSocket was closed before the connection was established''])]
            else [])\<rparr>"
    by (simp add: disconnect_def terminate_socket_eq connecting_def set_readyState_def log_def
        ws_terminate_def split: option.splits)
  moreover have "connected s \<and> \<not> connected (handle pf e s) \<longrightarrow> (\<exists>i. e = WsClose i)"
    using handle_connected by blast
  ultimately show ?thesis by simp
qed

theorem disconnect_keeps_connected_witness:
  "(let s = run example_platform [CallConnect, WsOpen 0] (Api_new ''192.168.1.10'' None None None 0)
    in connected s \<and> connected (disconnect s)
       \<and> \<not> connected (handle example_platform (WsClose 0) (disconnect s))
       \<and> (\<exists>i. (WsClose 0 :: event) = WsClose i))"
  using disconnect_keeps_connected
    [of "disconnect (run example_platform [CallConnect, WsOpen 0] (Api_new ''192.168.1.10'' None None None 0))"
        example_platform "WsClose 0"]
  by (simp add: eval_defs)

section \<open>The connection URL and the token file\<close>

lemma webSocketUrl_eq:
  "webSocketUrl h n t =
     ''wss://'' @ h @ '':8002/api/v2/channels/samsung.remote.control?name='' @ n @ ''&token='' @ t"
  by (simp add: webSocketUrl_def WSS_PORT_def)

lemma connect_finish_accepted:
  assumes "WebSocket_accepts pf (webSocketUrl (host s) (name s) t)"
  shows "sockets (fst (connect_finish pf t s)) =
     sockets s @ [\<lparr>url = webSocketUrl (host s) (name s) t, ws_headers = headers s,
                   rejectUnauthorized = False, readyState = CONNECTING,
                   saveToken_listener = (tokenFile s \<noteq> None)\<rparr>]"
    and "socket (fst (connect_finish pf t s)) = Some (length (sockets s))"
    and "snd (connect_finish pf t s) = Inr True"
  using assms by (simp_all add: connect_finish_def Let_def utf8_roundtrip_def log_def)

lemma connect_finish_refused:
  assumes "\<not> WebSocket_accepts pf (webSocketUrl (host s) (name s) t)"
  shows "sockets (fst (connect_finish pf t s)) = sockets s"
    and "socket (fst (connect_finish pf t s)) = socket s"
    and "snd (connect_finish pf t s) = Inl (InvalidURL (webSocketUrl (host s) (name s) t))"
  using assms by (simp_all add: connect_finish_def Let_def utf8_roundtrip_def log_def)

lemma connect_finish_never_false: "snd (connect_finish pf t s) \<noteq> Inr False"
  by (simp add: connect_finish_def Let_def)

lemma connect_finish_console:
  "console (fst (connect_finish pf t s)) =
     console s @ (Debug, ''Connecting to ws server url: %s'', [ArgStr (webSocketUrl (host s) (name s) t)])
       # (if WebSocket_accepts pf (webSocketUrl (host s) (name s) t) \<and> tokenFile s \<noteq> None
          then [(Info, ''Registering token file save handler'', [])] else [])"
  by (simp add: connect_finish_def Let_def utf8_roundtrip_def log_def)

lemma connect_suspends:
  assumes "\<not> connect_guard s" and "tokenFile_truthy s"
  shows "snd (connect pf s) = Pending
        \<and> handle pf (ReadFileDone r) (fst (connect pf s)) =
            fst (connect_read_done pf r (terminate_socket s))"
proof -
  have tf: "tokenFile_truthy (terminate_socket s)"
    using assms by (simp add: tokenFile_truthy_def)
  have same: "(terminate_socket s)\<lparr>pending_reads := pending_reads s\<rparr> = terminate_socket s"
    by (simp add: terminate_socket_eq set_readyState_def log_def split: option.splits)
  have c: "connect pf s = ((terminate_socket s)\<lparr>pending_reads := Suc (pending_reads s)\<rparr>, Pending)"
    using assms tf by (simp add: connect_def Let_def)
  have "handle pf (ReadFileDone r) (fst (connect pf s)) =
      fst (connect_read_done pf r ((terminate_socket s)\<lparr>pending_reads := pending_reads s\<rparr>))"
    by (simp add: c)
  also have "\<dots> = fst (connect_read_done pf r (terminate_socket s))"
    by (simp only: same)
  finally show ?thesis
    by (simp add: c)
qed

text \<open>
  Claim C7. The claim asks for the URL-encoded client name in the \<open>name\<close> parameter. The
  code passes the name through \<open>Buffer.from(name, "utf-8").toString()\<close>, which gives it back
  unchanged. For the client name \<open>TV&Hi-Fi\<close> the URL the transport is constructed with
  carries the ampersand as it is, which ends the \<open>name\<close> parameter after \<open>TV\<close>; the
  URL-encoded name is \<open>TV%26Hi-Fi\<close>.
\<close>

theorem connect_url_name_not_encoded:
  "url (last (sockets (fst (connect example_platform
          (Api_new ''192.168.1.10'' (Some ''TV&Hi-Fi'') None None 0)))))
     = ''wss://192.168.1.10:8002/api/v2/channels/samsung.remote.control?name=TV&Hi-Fi&token=''
   \<and> urlencode_spec ''TV&Hi-Fi'' = ''TV%26Hi-Fi''
   \<and> url (last (sockets (fst (connect example_platform
          (Api_new ''192.168.1.10'' (Some ''TV&Hi-Fi'') None None 0)))))
     \<noteq> ''wss://192.168.1.10:8002/api/v2/channels/samsung.remote.control?name=''
          @ urlencode_spec ''TV&Hi-Fi'' @ ''&token=''"
  by (simp add: eval_defs urlencode_spec_def urlencode_char_spec_def unreserved_def percent_def)

text \<open>
  Claim C8, as amended. When the read of the token file fails, the failure is caught and
  logged as a warning, and the rest of \<open>connect()\<close> runs with the empty token, exactly as
  after reading an empty file: the URL has an empty \<open>token\<close> parameter. When the
  constructor accepts that URL the transport is constructed and the call resolves to
  \<open>true\<close>; when it does not, the constructor throws, no transport is constructed and the
  call rejects with that error.
\<close>

theorem token_read_failure_not_fatal:
  "connect_read_done pf (Inl err) s =
     connect_finish pf [] (log Warn ''Unable to find token: {}'' [ArgErr err] s)
   \<and> (Warn, ''Unable to find token: {}'', [ArgErr err])
       \<in> set (console (fst (connect_read_done pf (Inl err) s)))
   \<and> snd (connect_read_done pf (Inl err) s) = snd (connect_read_done pf (Inr []) s)
   \<and> (let u = ''wss://'' @ host s @ '':8002/api/v2/channels/samsung.remote.control?name=''
                @ name s @ ''&token='';
           s' = fst (connect_read_done pf (Inl err) s)
       in if WebSocket_accepts pf u
          then snd (connect_read_done pf (Inl err) s) = Inr True
               \<and> sockets s' =
                   sockets s @ [\<lparr>url = u, ws_headers = headers s, rejectUnauthorized = False,
                                 readyState = CONNECTING,
                                 saveToken_listener = (tokenFile s \<noteq> None)\<rparr>]
               \<and> socket s' = Some (length (sockets s))
          else snd (connect_read_done pf (Inl err) s) = Inl (InvalidURL u)
               \<and> sockets s' = sockets s \<and> socket s' = socket s)
   \<and> (\<not> connect_guard s \<and> tokenFile_truthy s \<longrightarrow>
        snd (connect pf s) = Pending
        \<and> handle pf (ReadFileDone (Inl err)) (fst (connect pf s)) =
            fst (connect_read_done pf (Inl err) (terminate_socket s)))"
proof -
  define w where "w = log Warn ''Unable to find token: {}'' [ArgErr err] s"
  define u where "u = ''wss://'' @ host s @ '':8002/api/v2/channels/samsung.remote.control?name=''
                @ name s @ ''&token=''"
  have 1: "connect_read_done pf (Inl err) s = connect_finish pf [] w"
    by (simp add: connect_read_done_def w_def)
  have 2: "(Warn, ''Unable to find token: {}'', [ArgErr err])
       \<in> set (console (fst (connect_read_done pf (Inl err) s)))"
    by (simp add: 1 w_def connect_finish_console log_def)
  have uw: "webSocketUrl (host w) (name w) [] = u" and us: "webSocketUrl (host s) (name s) [] = u"
    by (simp_all add: w_def u_def webSocketUrl_eq)
  have 0: "connect_read_done pf (Inr []) s = connect_finish pf [] s"
    by (simp add: connect_read_done_def)
  have 3: "snd (connect_read_done pf (Inl err) s) = snd (connect_read_done pf (Inr []) s)"
    using connect_finish_accepted(3) [of pf w "[]"] connect_finish_refused(3) [of pf w "[]"]
      connect_finish_accepted(3) [of pf s "[]"] connect_finish_refused(3) [of pf s "[]"]
    by (cases "WebSocket_accepts pf u") (simp_all add: 0 1 uw us)
  have 4: "snd (connect_read_done pf (Inl err) s) = Inr True
      \<and> sockets (fst (connect_read_done pf (Inl err) s)) =
          sockets s @ [\<lparr>url = u, ws_headers = headers s, rejectUnauthorized = False,
                        readyState = CONNECTING, saveToken_listener = (tokenFile s \<noteq> None)\<rparr>]
      \<and> socket (fst (connect_read_done pf (Inl err) s)) = Some (length (sockets s))"
    if "WebSocket_accepts pf u"
    using that connect_finish_accepted [of pf w "[]"] by (simp add: 1 uw) (simp add: w_def)
  have 5: "snd (connect_read_done pf (Inl err) s) = Inl (InvalidURL u)
      \<and> sockets (fst (connect_read_done pf (Inl err) s)) = sockets s
      \<and> socket (fst (connect_read_done pf (Inl err) s)) = socket s"
    if "\<not> WebSocket_accepts pf u"
    using that connect_finish_refused [of pf w "[]"] by (simp add: 1 uw) (simp add: w_def)
  show ?thesis
    using 1 2 3 4 5 connect_suspends [of s pf "Inl err"]
    unfolding w_def [symmetric] u_def [symmetric] Let_def
    by (cases "WebSocket_accepts pf u") simp_all
qed

text \<open>
  The claim as stated fails for the host \<open>bad host\<close>: after the failed read the constructor
  refuses the URL, no transport is constructed, and the suspended call rejects with the
  error of the constructor.
\<close>

theorem token_read_failure_counterexample:
  "(let s = run example_platform [CallConnect]
              (Api_new ''bad host'' None None (Some ''/config/token'') 0)
    in pending_reads s = 1
       \<and> snd (connect_read_done example_platform (Inl ''ENOENT'') (s\<lparr>pending_reads := 0\<rparr>)) =
           Inl (InvalidURL
             ''wss://bad host:8002/api/v2/channels/samsung.remote.control?name=SamsungTvRemote&token='')
       \<and> sockets (handle example_platform (ReadFileDone (Inl ''ENOENT'')) s) = [])"
  by (simp add: eval_defs)

theorem token_read_failure_not_fatal_witness:
  "(let s = Api_new ''192.168.1.10'' None None (Some ''/config/token'') 0
    in \<not> connect_guard s \<and> tokenFile_truthy s \<and> snd (connect example_platform s) = Pending
       \<and> WebSocket_accepts example_platform
           ''wss://192.168.1.10:8002/api/v2/channels/samsung.remote.control?name=SamsungTvRemote&token=''
       \<and> url (last (sockets (handle example_platform (ReadFileDone (Inl ''ENOENT''))
             (fst (connect example_platform s))))) =
           ''wss://192.168.1.10:8002/api/v2/channels/samsung.remote.control?name=SamsungTvRemote&token=''
       \<and> snd (connect_read_done example_platform (Inl ''ENOENT'') (terminate_socket s)) = Inr True)"
proof -
  define s where "s = Api_new ''192.168.1.10'' None None (Some ''/config/token'') 0"
  have g: "\<not> connect_guard s" and t: "tokenFile_truthy s"
    by (simp_all add: s_def Api_new_def connect_guard_def tokenFile_truthy_def)
  have f: "host (terminate_socket s) = ''192.168.1.10''" "name (terminate_socket s) = ''SamsungTvRemote''"
    by (simp_all add: s_def Api_new_def)
  have a: "WebSocket_accepts example_platform
           ''wss://192.168.1.10:8002/api/v2/channels/samsung.remote.control?name=SamsungTvRemote&token=''"
    by (simp add: example_platform_def example_accepts_def)
  from token_read_failure_not_fatal [of example_platform "''ENOENT''" "terminate_socket s"]
  have "(let u = ''wss://'' @ host (terminate_socket s)
                @ '':8002/api/v2/channels/samsung.remote.control?name=''
                @ name (terminate_socket s) @ ''&token='';
             s' = fst (connect_read_done example_platform (Inl ''ENOENT'') (terminate_socket s))
         in if WebSocket_accepts example_platform u
            then snd (connect_read_done example_platform (Inl ''ENOENT'') (terminate_socket s)) = Inr True
                 \<and> sockets s' =
                     sockets (terminate_socket s) @
                       [\<lparr>url = u, ws_headers = headers (terminate_socket s),
                         rejectUnauthorized = False, readyState = CONNECTING,
                         saveToken_listener = (tokenFile (terminate_socket s) \<noteq> None)\<rparr>]
                 \<and> socket s' = Some (length (sockets (terminate_socket s)))
            else snd (connect_read_done example_platform (Inl ''ENOENT'') (terminate_socket s)) =
                   Inl (InvalidURL u)
                 \<and> sockets s' = sockets (terminate_socket s)
                 \<and> socket s' = socket (terminate_socket s))"
    by blast
  with f a
  have 1: "url (last (sockets (fst (connect_read_done example_platform (Inl ''ENOENT'')
        (terminate_socket s))))) =
     ''wss://192.168.1.10:8002/api/v2/channels/samsung.remote.control?name=SamsungTvRemote&token=''"
    and 2: "snd (connect_read_done example_platform (Inl ''ENOENT'') (terminate_socket s)) = Inr True"
    by (simp_all add: Let_def)
  from token_read_failure_not_fatal [of example_platform "''ENOENT''" s] g t
  have "snd (connect example_platform s) = Pending
     \<and> handle example_platform (ReadFileDone (Inl ''ENOENT'')) (fst (connect example_platform s)) =
         fst (connect_read_done example_platform (Inl ''ENOENT'') (terminate_socket s))"
    by blast
  with 1 2 g t a show ?thesis
    unfolding s_def [symmetric] Let_def by simp
qed

section \<open>Subscribers\<close>

lemma subscribers_addSubscriber:
  "subscribers (addSubscriber f s) =
     (if f \<in> set (subscribers s) then subscribers s else subscribers s @ [f])"
  by (simp add: addSubscriber_def Let_def log_def)

lemma delivered_onMessage:
  "delivered (onMessage ev s) = delivered s @ map (\<lambda>f. (f, ev)) (subscribers s)"
  by (simp add: onMessage_def Let_def)

lemma delivered_emit_message:
  "delivered (emit_message p i ev s) = delivered s @ map (\<lambda>f. (f, ev)) (subscribers s)"
  by (simp add: emit_message_def Let_def delivered_onMessage)

lemma handle_distinct_subscribers:
  "distinct (subscribers s) \<Longrightarrow> distinct (subscribers (handle p e s))"
  by (cases e) (simp_all add: subscribers_addSubscriber clearSubscribers_def)

lemma run_distinct_subscribers:
  "distinct (subscribers s) \<Longrightarrow> distinct (subscribers (run p es s))"
  by (induction es arbitrary: s) (simp_all add: handle_distinct_subscribers)

lemma reachable_distinct_subscribers:
  "distinct (subscribers (run p es (Api_new h n hs tf t0)))"
  by (rule run_distinct_subscribers) (simp add: Api_new_def)

lemma handle_no_subscribers:
  "subscribers s = [] \<Longrightarrow> \<not> is_add e \<Longrightarrow>
     subscribers (handle p e s) = [] \<and> delivered (handle p e s) = delivered s"
  by (cases e) (simp_all add: clearSubscribers_def delivered_emit_message)

lemma run_no_subscribers:
  "subscribers s = [] \<Longrightarrow> \<forall>e \<in> set es. \<not> is_add e \<Longrightarrow> delivered (run p es s) = delivered s"
proof (induction es arbitrary: s)
  case Nil
  then show ?case by simp
next
  case (Cons e es)
  then have "subscribers (handle p e s) = []" and "delivered (handle p e s) = delivered s"
    using handle_no_subscribers [of s e p] by simp_all
  with Cons show ?case by simp
qed

lemma count_list_distinct:
  "distinct xs \<Longrightarrow> count_list xs x = (if x \<in> set xs then 1 else 0)"
  by (induction xs) auto

lemma count_list_deliveries:
  "count_list (map (\<lambda>g. (g, ev)) xs) (f, ev) = count_list xs f"
  by (induction xs) simp_all

lemma addSubscriber_twice:
  "subscribers (addSubscriber f (addSubscriber f s)) = subscribers (addSubscriber f s)"
  by (simp add: subscribers_addSubscriber)

text \<open>
  Claim C9. In every state the manager can reach, after \<open>addSubscriber(f)\<close> twice the
  registry is what a single call gives, and an inbound message invokes \<open>f\<close> exactly once;
  after \<open>clearSubscribers()\<close> an inbound message is delivered to no callback, and so is
  every event until a subscriber is added.
\<close>

theorem subscriber_registry:
  assumes "s = run pf es0 (Api_new h n hs tf t0)"
    and "receiving i s"
    and "\<forall>e \<in> set es. \<not> is_add e"
  shows "(let s2 = addSubscriber f (addSubscriber f s)
          in subscribers s2 = subscribers (addSubscriber f s)
             \<and> delivered (handle pf (WsMessage i ev) s2) =
                 delivered s2 @ map (\<lambda>g. (g, ev)) (subscribers s2)
             \<and> count_list (map (\<lambda>g. (g, ev)) (subscribers s2)) (f, ev) = 1)
         \<and> delivered (handle pf (WsMessage i ev) (clearSubscribers s)) = delivered s
         \<and> delivered (run pf es (clearSubscribers s)) = delivered s"
proof -
  define s2 where "s2 = addSubscriber f (addSubscriber f s)"
  have d: "distinct (subscribers s)"
    unfolding assms(1) by (rule reachable_distinct_subscribers)
  have r2: "receiving i s2" and rc: "receiving i (clearSubscribers s)"
    using assms(2) by (simp_all add: receiving_def s2_def)
  have subs: "subscribers s2 = subscribers (addSubscriber f s)"
    unfolding s2_def by (rule addSubscriber_twice)
  have mem: "f \<in> set (subscribers s2)" and dist: "distinct (subscribers s2)"
    using d by (simp_all add: subs subscribers_addSubscriber)
  have once: "count_list (map (\<lambda>g. (g, ev)) (subscribers s2)) (f, ev) = 1"
    using mem dist by (simp add: count_list_deliveries count_list_distinct)
  have msg: "delivered (handle pf (WsMessage i ev) s2) =
      delivered s2 @ map (\<lambda>g. (g, ev)) (subscribers s2)"
    using r2 by (simp add: delivered_emit_message)
  have cleared: "delivered (handle pf (WsMessage i ev) (clearSubscribers s)) = delivered s"
    using rc by (simp add: delivered_emit_message clearSubscribers_def)
  have quiet: "delivered (run pf es (clearSubscribers s)) = delivered s"
    using run_no_subscribers [of "clearSubscribers s" es pf] assms(3)
    by (simp add: clearSubscribers_def)
  show ?thesis
    using subs msg once cleared quiet unfolding s2_def [symmetric] Let_def by blast
qed

theorem subscriber_registry_witness:
  "(let s = run example_platform [CallConnect, WsOpen 0] (Api_new ''192.168.1.10'' None None None 0);
        s2 = addSubscriber 7 (addSubscriber 7 s)
    in receiving 0 s \<and> \<not> is_add (WsMessage 0 ''null'') \<and> \<not> is_add (WsPing 0)
       \<and> delivered (handle example_platform (WsMessage 0 ''null'') s2) = [(7, ''null'')]
       \<and> delivered (run example_platform [WsMessage 0 ''null'', WsPing 0] (clearSubscribers s2)) = delivered s2
       \<and> delivered s2 = [])"
proof -
  define s where "s = run example_platform [CallConnect, WsOpen 0] (Api_new ''192.168.1.10'' None None None 0)"
  define s2 where "s2 = addSubscriber 7 (addSubscriber 7 s)"
  have r: "receiving 0 s"
    by (simp add: s_def eval_defs)
  have q: "\<forall>e \<in> set [WsMessage 0 ''null'', WsPing 0]. \<not> is_add e"
    by simp
  have e: "subscribers s = []" "delivered s = []"
    by (simp_all add: s_def Api_new_def)
  have s2: "s2 = run example_platform [CallConnect, WsOpen 0, CallAddSubscriber 7, CallAddSubscriber 7]
      (Api_new ''192.168.1.10'' None None None 0)"
    by (simp add: s2_def s_def)
  have r2: "receiving 0 s2"
    using r by (simp add: s2_def receiving_def)
  from subscriber_registry [OF s_def r q, of 7 "''null''"] e
  have 1: "delivered (handle example_platform (WsMessage 0 ''null'') s2) = [(7, ''null'')]"
    unfolding s2_def [symmetric] Let_def
    by (simp add: subscribers_addSubscriber s2_def)
  from subscriber_registry [OF s2 r2 q, of 7 "''null''"]
  have 2: "delivered (run example_platform [WsMessage 0 ''null'', WsPing 0] (clearSubscribers s2)) = delivered s2"
    by blast
  have 3: "delivered s2 = []"
    using e by (simp add: s2_def)
  from r 1 2 3 show ?thesis
    unfolding s_def [symmetric] s2_def [symmetric] Let_def by simp
qed

section \<open>The heartbeat timer\<close>

lemma timers_ok_iff:
  "timers_ok s \<longleftrightarrow>
     (\<forall>h. pingTimeout s = Some h \<longrightarrow> h < next_timer s) \<and>
     (timers s = [] \<or>
      (\<exists>h d. timers s = [(h, d, HeartbeatTimeout)] \<and> pingTimeout s = Some h
         \<and> d \<le> clock s + EVENTS_HEARTBEAT_INTERVAL_MS))"
proof (cases "timers s")
  case Nil
  then show ?thesis
    by (simp add: timers_ok_def split: option.splits)
next
  case (Cons t ts)
  obtain h d cb where t: "t = (h, d, cb)"
    by (cases t)
  show ?thesis
  proof (cases ts)
    case Nil
    with Cons t show ?thesis
      by (cases "pingTimeout s") (auto simp: timers_ok_def)
  next
    case (Cons t' ts')
    with \<open>timers s = t # ts\<close> t show ?thesis
      by (simp add: timers_ok_def)
  qed
qed

lemma timers_okI:
  assumes "timers_ok s" and "timers s' = timers s \<or> timers s' = []"
    and "pingTimeout s' = pingTimeout s" and "next_timer s' = next_timer s" and "clock s \<le> clock s'"
  shows "timers_ok s'"
proof -
  have a: "\<forall>h. pingTimeout s' = Some h \<longrightarrow> h < next_timer s'"
    using assms(1) by (simp add: timers_ok_iff assms(3,4))
  have b: "timers s' = [] \<or>
      (\<exists>h d. timers s' = [(h, d, HeartbeatTimeout)] \<and> pingTimeout s' = Some h
         \<and> d \<le> clock s' + EVENTS_HEARTBEAT_INTERVAL_MS)"
  proof (cases "timers s' = []")
    case True
    then show ?thesis by simp
  next
    case False
    with assms(2) have eq: "timers s' = timers s"
      by simp
    with False assms(1) obtain h d where
      "timers s = [(h, d, HeartbeatTimeout)]" "pingTimeout s = Some h"
      "d \<le> clock s + EVENTS_HEARTBEAT_INTERVAL_MS"
      unfolding timers_ok_iff by auto
    with eq assms(3,5) show ?thesis
      by auto
  qed
  from a b show ?thesis
    by (simp only: timers_ok_iff [of s'])
qed

lemma timers_ok_cases:
  assumes "timers_ok s"
  obtains "timers s = []"
  | h d where "timers s = [(h, d, HeartbeatTimeout)]" "pingTimeout s = Some h"
      "d \<le> clock s + EVENTS_HEARTBEAT_INTERVAL_MS" "h < next_timer s"
  using assms unfolding timers_ok_iff by blast

lemma heartbeat_effect:
  "timers (heartbeat s) =
     (case pingTimeout s of None \<Rightarrow> timers s
      | Some h \<Rightarrow> filter (\<lambda>(k, d, cb). k \<noteq> h) (timers s))
     @ [(next_timer s, clock s + EVENTS_HEARTBEAT_INTERVAL_MS, HeartbeatTimeout)]"
  "pingTimeout (heartbeat s) = Some (next_timer s)"
  "next_timer (heartbeat s) = Suc (next_timer s)"
  by (simp_all add: heartbeat_def Let_def setTimeout_def clearTimeout_def split: option.splits)

lemma heartbeat_armed:
  assumes "timers_ok s"
  shows "timers (heartbeat s) = [(next_timer s, clock s + EVENTS_HEARTBEAT_INTERVAL_MS, HeartbeatTimeout)]"
    and "pingTimeout (heartbeat s) = Some (next_timer s)"
    and "next_timer (heartbeat s) = Suc (next_timer s)"
proof -
  have "filter (\<lambda>(k, d, cb). k \<noteq> h) (timers s) = []" if "pingTimeout s = Some h" for h
    using assms that unfolding timers_ok_iff by auto
  moreover have "timers s = []" if "pingTimeout s = None"
    using assms that unfolding timers_ok_iff by auto
  ultimately show
    "timers (heartbeat s) = [(next_timer s, clock s + EVENTS_HEARTBEAT_INTERVAL_MS, HeartbeatTimeout)]"
    by (simp add: heartbeat_effect split: option.splits)
qed (simp_all add: heartbeat_effect)

lemma timers_ok_heartbeat: "timers_ok s \<Longrightarrow> timers_ok (heartbeat s)"
  by (simp add: timers_ok_iff [of "heartbeat s"] heartbeat_armed)

lemma onOpen_timers:
  "timers (onOpen s) = timers (heartbeat s)"
  "pingTimeout (onOpen s) = pingTimeout (heartbeat s)"
  "next_timer (onOpen s) = next_timer (heartbeat s)"
  by (simp_all add: onOpen_def Let_def heartbeat_effect log_def split: option.splits)

lemma onMessage_timers:
  "timers (onMessage ev s) = timers (heartbeat s)"
  "pingTimeout (onMessage ev s) = pingTimeout (heartbeat s)"
  "next_timer (onMessage ev s) = next_timer (heartbeat s)"
  by (simp_all add: onMessage_def Let_def)

lemma emit_message_timers:
  "timers (emit_message p i ev s) = timers (heartbeat s)"
  "pingTimeout (emit_message p i ev s) = pingTimeout (heartbeat s)"
  "next_timer (emit_message p i ev s) = next_timer (heartbeat s)"
  by (simp_all add: emit_message_def Let_def onMessage_timers)

lemma heartbeat_set_readyState:
  "timers (heartbeat (set_readyState i r s)) = timers (heartbeat s)"
  "pingTimeout (heartbeat (set_readyState i r s)) = pingTimeout (heartbeat s)"
  "next_timer (heartbeat (set_readyState i r s)) = next_timer (heartbeat s)"
  by (simp_all add: heartbeat_effect split: option.splits)

lemma timers_ok_frame:
  assumes "timers_ok s" and "timers s' = timers (heartbeat s)"
    and "pingTimeout s' = pingTimeout (heartbeat s)" and "next_timer s' = next_timer (heartbeat s)"
    and "clock s' = clock s"
  shows "timers_ok s'"
  using assms by (simp add: timers_ok_iff [of s'] heartbeat_armed)

lemma timers_onClose:
  "timers_ok s \<Longrightarrow> timers (onClose pf s) = []"
proof (erule timers_ok_cases)
  assume "timers s = []"
  then show ?thesis
    by (simp add: onClose_def Let_def clearTimeout_def split: option.splits)
next
  fix h d
  assume "timers s = [(h, d, HeartbeatTimeout)]" "pingTimeout s = Some h"
  then show ?thesis
    by (simp add: onClose_def Let_def clearTimeout_def log_def)
qed

lemma timers_fire_timer:
  "timers_ok s \<Longrightarrow> timers (fire_timer pf h s) = timers s \<or> timers (fire_timer pf h s) = []"
proof (erule timers_ok_cases)
  assume "timers s = []"
  then show ?thesis
    by (simp add: fire_timer_def)
next
  fix k d
  assume "timers s = [(k, d, HeartbeatTimeout)]"
  then show ?thesis
    by (simp add: fire_timer_def run_callback_def clearTimeout_def)
qed

lemma timers_ok_handle: "timers_ok s \<Longrightarrow> timers_ok (handle p e s)"
proof (cases e)
  case (WsOpen i)
  assume ok: "timers_ok s"
  have "timers_ok (onOpen (set_readyState i OPEN s))"
    by (rule timers_ok_frame [OF ok]) (simp_all add: onOpen_timers heartbeat_set_readyState)
  with ok WsOpen show ?thesis by simp
next
  case (WsPing i)
  assume "timers_ok s"
  with WsPing show ?thesis by (simp add: timers_ok_heartbeat)
next
  case (WsMessage i ev)
  assume ok: "timers_ok s"
  have "timers_ok (emit_message p i ev s)"
    by (rule timers_ok_frame [OF ok]) (simp_all add: emit_message_timers)
  with ok WsMessage show ?thesis by simp
next
  case (WsClose i)
  assume ok: "timers_ok s"
  then have ok': "timers_ok (set_readyState i CLOSED s)"
    by (rule timers_okI) simp_all
  have "timers_ok (onClose p (set_readyState i CLOSED s))"
    by (rule timers_okI [OF ok']) (simp_all add: timers_onClose [OF ok'])
  with ok WsClose show ?thesis by simp
next
  case (TimerFire h)
  assume ok: "timers_ok s"
  have "timers_ok (fire_timer p h s)"
    by (rule timers_okI [OF ok]) (use timers_fire_timer [OF ok] in simp_all)
  with TimerFire show ?thesis by simp
next
  case (Advance d)
  assume ok: "timers_ok s"
  have "timers_ok (s\<lparr>clock := clock s + d\<rparr>)"
    by (rule timers_okI [OF ok]) simp_all
  with Advance show ?thesis by simp
next
  case CallConnect
  assume ok: "timers_ok s"
  have "timers_ok (fst (connect p s))"
    by (rule timers_okI [OF ok]) simp_all
  with CallConnect show ?thesis by simp
next
  case (CallAddSubscriber f)
  assume ok: "timers_ok s"
  have "timers_ok (addSubscriber f s)"
    by (rule timers_okI [OF ok]) simp_all
  with CallAddSubscriber show ?thesis by simp
next
  case CallClearSubscribers
  assume ok: "timers_ok s"
  have "timers_ok (clearSubscribers s)"
    by (rule timers_okI [OF ok]) simp_all
  with CallClearSubscribers show ?thesis by simp
next
  case CallDisconnect
  assume ok: "timers_ok s"
  have "timers_ok (disconnect s)"
    by (rule timers_okI [OF ok]) simp_all
  with CallDisconnect show ?thesis by simp
next
  case (ReadFileDone r)
  assume ok: "timers_ok s"
  have "timers_ok (fst (connect_read_done p r (s\<lparr>pending_reads := pending_reads s - 1\<rparr>)))"
    by (rule timers_okI [OF ok]) simp_all
  with ok ReadFileDone show ?thesis by simp
next
  case (WsError i err)
  assume ok: "timers_ok s"
  have "timers_ok (onError err (set_readyState i CLOSING s))"
    by (rule timers_okI [OF ok]) simp_all
  with ok WsError show ?thesis by simp
qed

lemma timers_ok_run: "timers_ok s \<Longrightarrow> timers_ok (run p es s)"
  by (induction es arbitrary: s) (simp_all add: timers_ok_handle)

lemma timers_ok_reachable: "timers_ok (run p es (Api_new h n hs tf t0))"
  by (rule timers_ok_run) (simp add: timers_ok_def Api_new_def)

lemma saveToken_length_sockets:
  "length (sockets (saveToken p j ev s)) = length (sockets s)"
  by (simp add: saveToken_def Let_def log_def split: option.splits)

lemma saveToken_readyState:
  "readyState (sockets (saveToken p j ev s) ! i) = readyState (sockets s ! i)"
proof (cases "i = j \<and> j < length (sockets s)")
  case True
  then show ?thesis
    by (simp add: saveToken_def Let_def log_def split: option.splits)
next
  case False
  then show ?thesis
    by (auto simp: saveToken_def Let_def log_def list_update_beyond split: option.splits)
qed

lemmas saveToken_sockets = saveToken_length_sockets saveToken_readyState

lemma emit_message_sockets:
  "length (sockets (emit_message p j ev s)) = length (sockets s)"
  "readyState (sockets (emit_message p j ev s) ! i) = readyState (sockets s ! i)"
  by (simp_all add: emit_message_def Let_def saveToken_sockets)

lemma receiving_frame:
  "is_frame i e \<Longrightarrow> receiving j (handle p e s) = receiving j s"
  by (cases e) (simp_all add: receiving_def emit_message_sockets)

lemma receiving_Advance:
  "receiving j (handle p (Advance d) s) = receiving j s"
  by (simp add: receiving_def)

lemma handle_frame_timers:
  assumes "is_frame i e" and "receiving i s"
  shows "timers (handle p e s) = timers (heartbeat s)"
    and "pingTimeout (handle p e s) = pingTimeout (heartbeat s)"
    and "next_timer (handle p e s) = next_timer (heartbeat s)"
    and "clock (handle p e s) = clock s"
proof -
  from assms have "e = WsPing i \<or> (\<exists>ev. e = WsMessage i ev)"
    by (cases e) simp_all
  with assms(2) show "timers (handle p e s) = timers (heartbeat s)"
    and "pingTimeout (handle p e s) = pingTimeout (heartbeat s)"
    and "next_timer (handle p e s) = next_timer (heartbeat s)"
    and "clock (handle p e s) = clock s"
    by (auto simp: emit_message_timers)
qed

lemma frame_rearms:
  assumes "timers_ok s" and "is_frame i e" and "receiving i s"
  shows "timers (handle p e s) = [(next_timer s, clock s + EVENTS_HEARTBEAT_INTERVAL_MS, HeartbeatTimeout)]"
    and "pingTimeout (handle p e s) = Some (next_timer s)"
    and "next_timer (handle p e s) = Suc (next_timer s)"
  using assms by (simp_all add: handle_frame_timers heartbeat_armed)

text \<open>
  Claim C4, as amended. In every state the manager reaches, a ping or a message received
  on a transport cancels the armed heartbeat timer and arms a new one whose deadline is the
  time of the frame plus 20 s: exactly one timer is armed afterwards, at most one was armed
  before, and its deadline was not later than the new one. A further frame \<open>\<delta>\<close> ms later
  moves the deadline by \<open>\<delta>\<close>, so the deadline is later exactly when the clock has
  advanced between the two frames.
\<close>

theorem heartbeat_rearmed_by_frame:
  assumes "s = run pf es0 (Api_new h n hs tf t0)"
    and "receiving i s"
    and "is_frame i e" and "is_frame i e'"
  shows "(let s' = handle pf e s
          in timers s' = [(next_timer s, clock s + EVENTS_HEARTBEAT_INTERVAL_MS, HeartbeatTimeout)]
             \<and> pingTimeout s' = Some (next_timer s)
             \<and> (\<forall>k. pingTimeout s = Some k \<longrightarrow> k \<notin> fst ` set (timers s'))
             \<and> timers (handle pf e' (handle pf (Advance \<delta>) s')) =
                 [(Suc (next_timer s), clock s + \<delta> + EVENTS_HEARTBEAT_INTERVAL_MS, HeartbeatTimeout)])
         \<and> length (timers s) \<le> 1
         \<and> (\<forall>t \<in> set (timers s). fst (snd t) \<le> clock s + EVENTS_HEARTBEAT_INTERVAL_MS)
         \<and> EVENTS_HEARTBEAT_INTERVAL_MS = 20000"
proof -
  define s' where "s' = handle pf e s"
  define s'' where "s'' = handle pf (Advance \<delta>) s'"
  have ok: "timers_ok s"
    unfolding assms(1) by (rule timers_ok_reachable)
  have 1: "timers s' = [(next_timer s, clock s + EVENTS_HEARTBEAT_INTERVAL_MS, HeartbeatTimeout)]"
    and 2: "pingTimeout s' = Some (next_timer s)"
    and 3: "next_timer s' = Suc (next_timer s)"
    unfolding s'_def using ok assms(3,2) by (rule frame_rearms)+
  have fresh: "k \<notin> fst ` set (timers s')" if "pingTimeout s = Some k" for k
    using ok that by (auto simp: 1 timers_ok_iff)
  have ok'': "timers_ok s''"
    unfolding s''_def s'_def using ok by (intro timers_ok_handle)
  have rec'': "receiving i s''"
    unfolding s''_def s'_def using assms(2,3) by (simp only: receiving_Advance receiving_frame)
  have nt: "next_timer s'' = Suc (next_timer s)" and ck: "clock s'' = clock s + \<delta>"
    using 3 assms(2,3) by (simp_all add: s''_def s'_def handle_frame_timers)
  have 4: "timers (handle pf e' s'') =
      [(Suc (next_timer s), clock s + \<delta> + EVENTS_HEARTBEAT_INTERVAL_MS, HeartbeatTimeout)]"
    using frame_rearms(1) [OF ok'' assms(4) rec'', of pf] by (simp add: nt ck)
  have 5: "length (timers s) \<le> 1"
    using ok by (auto simp: timers_ok_iff)
  have 6: "\<forall>t \<in> set (timers s). fst (snd t) \<le> clock s + EVENTS_HEARTBEAT_INTERVAL_MS"
    using ok by (auto simp: timers_ok_iff)
  have 7: "EVENTS_HEARTBEAT_INTERVAL_MS = 20000"
    by (simp add: EVENTS_HEARTBEAT_INTERVAL_MS_def)
  show ?thesis
    using 1 2 fresh 4 5 6 7 unfolding s'_def [symmetric] s''_def [symmetric] Let_def by blast
qed

text \<open>
  The claim as stated fails for two pings handled at the same reading of the clock, which
  has a resolution of a millisecond: the deadline after the second is the deadline after
  the first, not a later one.
\<close>

theorem heartbeat_deadline_counterexample:
  "(let s = run example_platform [CallConnect, WsOpen 0, WsPing 0] (Api_new ''192.168.1.10'' None None None 0);
        s' = handle example_platform (WsPing 0) s
    in map (\<lambda>t. fst (snd t)) (timers s) = [20000]
       \<and> map (\<lambda>t. fst (snd t)) (timers s') = [20000]
       \<and> \<not> fst (snd (hd (timers s))) < fst (snd (hd (timers s'))))"
  by (simp add: eval_defs)

theorem heartbeat_rearmed_by_frame_witness:
  "(let s = run example_platform [CallConnect, WsOpen 0] (Api_new ''192.168.1.10'' None None None 0)
    in receiving 0 s \<and> is_frame 0 (WsPing 0) \<and> is_frame 0 (WsMessage 0 ''null'')
       \<and> timers s = [(0, 20000, HeartbeatTimeout)]
       \<and> timers (handle example_platform (WsPing 0) s) = [(1, 20000, HeartbeatTimeout)]
       \<and> timers (handle example_platform (WsMessage 0 ''null'')
             (handle example_platform (Advance 7) (handle example_platform (WsPing 0) s))) =
           [(2, 20007, HeartbeatTimeout)])"
proof -
  define s where "s = run example_platform [CallConnect, WsOpen 0] (Api_new ''192.168.1.10'' None None None 0)"
  have r: "receiving 0 s"
    by (simp add: s_def eval_defs)
  have v: "next_timer s = 1" "clock s = 0" "timers s = [(0, 20000, HeartbeatTimeout)]"
    by (simp_all add: s_def eval_defs)
  have f: "is_frame 0 (WsPing 0)" "is_frame 0 (WsMessage 0 ''null'')"
    by simp_all
  from heartbeat_rearmed_by_frame [OF s_def r f, of 7] v
  have "timers (handle example_platform (WsPing 0) s) = [(1, 20000, HeartbeatTimeout)]
       \<and> timers (handle example_platform (WsMessage 0 ''null'')
             (handle example_platform (Advance 7) (handle example_platform (WsPing 0) s))) =
           [(2, 20007, HeartbeatTimeout)]"
    unfolding Let_def by (simp add: EVENTS_HEARTBEAT_INTERVAL_MS_def)
  with r v show ?thesis
    unfolding s_def [symmetric] Let_def by simp
qed

section \<open>Reconnection\<close>

lemma connect_reports_success: "snd (connect pf s) \<noteq> Resolved False"
proof (cases "snd (connect_finish pf [] (terminate_socket s))")
  case (Inl e)
  then show ?thesis
    by (simp add: connect_def Let_def case_prod_beta)
next
  case (Inr b)
  with connect_finish_never_false [of pf "[]" "terminate_socket s"] have "b"
    by simp
  with Inr show ?thesis
    by (simp add: connect_def Let_def case_prod_beta)
qed

lemma connect_read_done_reports_success: "snd (connect_read_done pf r s) \<noteq> Inr False"
  by (simp add: connect_read_done_def connect_finish_never_false split: sum.splits)

lemma length_sockets_connect_finish:
  "length (sockets (fst (connect_finish pf t s))) =
     (if WebSocket_accepts pf (webSocketUrl (host s) (name s) t)
      then Suc (length (sockets s)) else length (sockets s))"
  by (simp add: connect_finish_accepted connect_finish_refused)

lemma length_sockets_connect_read_done:
  "length (sockets s) \<le> length (sockets (fst (connect_read_done pf r s)))"
  by (simp add: connect_read_done_def length_sockets_connect_finish split: sum.splits)

lemma connect_without_file:
  assumes "\<not> tokenFile_truthy s"
  shows "pending_reads (fst (connect pf s)) = pending_reads s"
    and "length (sockets (fst (connect pf s))) =
      (if \<not> connect_guard s \<and> WebSocket_accepts pf (webSocketUrl (host s) (name s) [])
       then Suc (length (sockets s)) else length (sockets s))"
proof -
  have t: "\<not> tokenFile_truthy (terminate_socket s)"
    using assms by (simp add: tokenFile_truthy_def)
  show "pending_reads (fst (connect pf s)) = pending_reads s"
    using t by (simp add: connect_def Let_def case_prod_beta)
  show "length (sockets (fst (connect pf s))) =
      (if \<not> connect_guard s \<and> WebSocket_accepts pf (webSocketUrl (host s) (name s) [])
       then Suc (length (sockets s)) else length (sockets s))"
    using t by (simp add: connect_def Let_def case_prod_beta length_sockets_connect_finish)
qed

lemma connect_with_file:
  assumes "tokenFile_truthy s"
  shows "length (sockets (fst (connect pf s))) = length (sockets s)"
proof -
  have t: "tokenFile_truthy (terminate_socket s)"
    using assms by (simp add: tokenFile_truthy_def)
  then show ?thesis
    by (simp add: connect_def Let_def)
qed

lemma length_sockets_connect: "length (sockets s) \<le> length (sockets (fst (connect pf s)))"
  using connect_with_file [of s pf] connect_without_file(2) [of s pf]
  by (cases "tokenFile_truthy s") (simp_all split: if_splits)

lemma length_sockets_reconnect: "length (sockets s) \<le> length (sockets (reconnect pf s))"
  by (simp add: reconnect_eq length_sockets_connect)

lemma reconnect_without_file:
  assumes "\<not> tokenFile_truthy s"
  shows "pending_reads (reconnect pf s) = pending_reads s"
    and "length (sockets (reconnect pf s)) \<noteq> length (sockets s) \<Longrightarrow>
      WebSocket_accepts pf (webSocketUrl (host s) (name s) [])"
  using connect_without_file [OF assms, of pf]
  by (simp_all add: reconnect_eq split: if_splits)

text \<open>The state in which \<open>onClose\<close> calls \<open>reconnect()\<close>.\<close>

lemma onClose_eq:
  "onClose pf s =
     reconnect pf
       ((case pingTimeout s of None \<Rightarrow> log Info ''WebSocket connection closed'' [] s
         | Some h \<Rightarrow> clearTimeout h (log Info ''WebSocket connection closed'' [] s))
        \<lparr>socket := None, connected := False\<rparr>)"
  by (simp add: onClose_def Let_def)

lemma onClose_sockets:
  "length (sockets s) \<le> length (sockets (onClose pf s))"
  "\<not> tokenFile_truthy s \<Longrightarrow> pending_reads (onClose pf s) = pending_reads s"
  "\<not> tokenFile_truthy s \<Longrightarrow> length (sockets (onClose pf s)) \<noteq> length (sockets s) \<Longrightarrow>
     WebSocket_accepts pf (webSocketUrl (host s) (name s) [])"
proof -
  define c where "c = (case pingTimeout s of None \<Rightarrow> log Info ''WebSocket connection closed'' [] s
         | Some h \<Rightarrow> clearTimeout h (log Info ''WebSocket connection closed'' [] s))
        \<lparr>socket := None, connected := False\<rparr>"
  have c: "sockets c = sockets s" "pending_reads c = pending_reads s" "host c = host s"
    "name c = name s" "tokenFile_truthy c = tokenFile_truthy s"
    by (simp_all add: c_def tokenFile_truthy_def split: option.splits)
  have e: "onClose pf s = reconnect pf c"
    by (simp add: onClose_eq c_def)
  show "length (sockets s) \<le> length (sockets (onClose pf s))"
    using length_sockets_reconnect [of c pf] by (simp add: e c)
  show "pending_reads (onClose pf s) = pending_reads s" if "\<not> tokenFile_truthy s"
    using reconnect_without_file(1) [of c pf] that by (simp add: e c)
  show "WebSocket_accepts pf (webSocketUrl (host s) (name s) [])"
    if "\<not> tokenFile_truthy s" "length (sockets (onClose pf s)) \<noteq> length (sockets s)"
    using reconnect_without_file(2) [of c pf] that by (simp add: e c)
qed

lemma fire_timer_sockets:
  "length (sockets s) \<le> length (sockets (fire_timer pf h s))"
  "\<not> tokenFile_truthy s \<Longrightarrow> pending_reads (fire_timer pf h s) = pending_reads s"
  "\<not> tokenFile_truthy s \<Longrightarrow> length (sockets (fire_timer pf h s)) \<noteq> length (sockets s) \<Longrightarrow>
     WebSocket_accepts pf (webSocketUrl (host s) (name s) [])"
proof -
  define c where "c = clearTimeout h s"
  have c: "sockets c = sockets s" "pending_reads c = pending_reads s" "host c = host s"
    "name c = name s" "tokenFile_truthy c = tokenFile_truthy s"
    by (simp_all add: c_def tokenFile_truthy_def)
  have e: "fire_timer pf h s = s \<or> fire_timer pf h s = terminate_socket c
      \<or> fire_timer pf h s = reconnect pf c"
    by (simp add: fire_timer_def run_callback_def c_def split: list.splits timer_callback.splits)
  show "length (sockets s) \<le> length (sockets (fire_timer pf h s))"
    using e length_sockets_reconnect [of c pf] by (auto simp: c)
  show "pending_reads (fire_timer pf h s) = pending_reads s" if "\<not> tokenFile_truthy s"
    using e reconnect_without_file(1) [of c pf] that by (auto simp: c)
  show "WebSocket_accepts pf (webSocketUrl (host s) (name s) [])"
    if "\<not> tokenFile_truthy s" "length (sockets (fire_timer pf h s)) \<noteq> length (sockets s)"
    using e reconnect_without_file(2) [of c pf] that by (auto simp: c)
qed

lemma handle_host: "host (handle pf e s) = host s"
  by (cases e) simp_all

lemma handle_name: "name (handle pf e s) = name s"
  by (cases e) simp_all

lemma handle_tokenFile: "tokenFile (handle pf e s) = tokenFile s"
  by (cases e) simp_all

lemmas handle_config = handle_host handle_name handle_tokenFile

lemma handle_sockets:
  "length (sockets s) \<le> length (sockets (handle pf e s))"
  "\<not> tokenFile_truthy s \<Longrightarrow> pending_reads s = 0 \<Longrightarrow> pending_reads (handle pf e s) = 0"
  "\<not> tokenFile_truthy s \<Longrightarrow> pending_reads s = 0 \<Longrightarrow>
     length (sockets (handle pf e s)) \<noteq> length (sockets s) \<Longrightarrow>
     WebSocket_accepts pf (webSocketUrl (host s) (name s) [])"
proof -
  show "length (sockets s) \<le> length (sockets (handle pf e s))"
  proof (cases e)
    case (ReadFileDone r)
    with length_sockets_connect_read_done [of "s\<lparr>pending_reads := pending_reads s - 1\<rparr>" pf r]
    show ?thesis by simp
  next
    case (WsClose i)
    with onClose_sockets(1) [of "set_readyState i CLOSED s" pf] show ?thesis
      by (simp add: set_readyState_def)
  qed (simp_all add: length_sockets_connect fire_timer_sockets(1) emit_message_sockets
        set_readyState_def disconnect_def)
  show "pending_reads (handle pf e s) = 0" if "\<not> tokenFile_truthy s" "pending_reads s = 0"
  proof (cases e)
    case (WsClose i)
    have "\<not> tokenFile_truthy (set_readyState i CLOSED s)"
      using that by (simp add: tokenFile_truthy_def)
    from onClose_sockets(2) [OF this, of pf] WsClose that show ?thesis
      by simp
  qed (use that connect_without_file(1) [of s pf] fire_timer_sockets(2) [of s pf] in simp_all)
  show "WebSocket_accepts pf (webSocketUrl (host s) (name s) [])"
    if "\<not> tokenFile_truthy s" "pending_reads s = 0"
      "length (sockets (handle pf e s)) \<noteq> length (sockets s)"
  proof (cases e)
    case CallConnect
    with that connect_without_file(2) [of s pf] show ?thesis
      by (simp split: if_splits)
  next
    case (WsClose i)
    have t: "\<not> tokenFile_truthy (set_readyState i CLOSED s)"
      using that by (simp add: tokenFile_truthy_def)
    from onClose_sockets(3) [OF t, of pf] WsClose that show ?thesis
      by (simp add: set_readyState_def split: if_splits)
  next
    case (TimerFire h)
    with that fire_timer_sockets(3) [of s pf h] show ?thesis
      by simp
  qed (use that in \<open>simp_all add: emit_message_sockets set_readyState_def disconnect_def
        split: if_splits\<close>)
qed

lemma url_tried_handle:
  assumes "url_tried pf s"
  shows "url_tried pf (handle pf e s)"
proof -
  have cfg: "tokenFile_truthy (handle pf e s) = tokenFile_truthy s"
    "webSocketUrl (host (handle pf e s)) (name (handle pf e s)) [] = webSocketUrl (host s) (name s) []"
    by (simp_all add: tokenFile_truthy_def handle_config)
  have a: "pending_reads (handle pf e s) = 0
      \<and> (sockets (handle pf e s) = [] \<or> WebSocket_accepts pf (webSocketUrl (host s) (name s) []))"
    if "\<not> tokenFile_truthy s"
  proof -
    from assms that have p: "pending_reads s = 0"
      and u: "sockets s = [] \<or> WebSocket_accepts pf (webSocketUrl (host s) (name s) [])"
      by (simp_all add: url_tried_def)
    have "WebSocket_accepts pf (webSocketUrl (host s) (name s) [])" if "sockets (handle pf e s) \<noteq> []"
    proof (cases "sockets s = []")
      case True
      with that have "length (sockets (handle pf e s)) \<noteq> length (sockets s)"
        by simp
      from handle_sockets(3) [OF \<open>\<not> tokenFile_truthy s\<close> p this] show ?thesis .
    next
      case False
      with u show ?thesis by simp
    qed
    with handle_sockets(2) [OF \<open>\<not> tokenFile_truthy s\<close> p, of pf e] show ?thesis
      by blast
  qed
  have b: "sockets (handle pf e s) \<noteq> []" if "shouldReconnect (handle pf e s)"
  proof (cases "is_open e")
    case True
    then obtain i where "e = WsOpen i"
      by (cases e) simp_all
    with that assms handle_sockets(1) [of s pf e] show ?thesis
      by (auto simp: url_tried_def split: if_splits)
  next
    case False
    with that have "shouldReconnect s"
      using handle_shouldReconnect by blast
    with assms have "sockets s \<noteq> []"
      by (simp add: url_tried_def)
    with handle_sockets(1) [of s pf e] show ?thesis
      by auto
  qed
  show ?thesis
    unfolding url_tried_def cfg using a b by blast
qed

lemma url_tried_run: "url_tried pf s \<Longrightarrow> url_tried pf (run pf es s)"
  by (induction es arbitrary: s) (simp_all add: url_tried_handle)

lemma url_tried_reachable: "url_tried pf (run pf es (Api_new h n hs tf t0))"
  by (rule url_tried_run) (simp add: url_tried_def Api_new_def)

lemma onClose_reconnects:
  assumes "shouldReconnect s"
  shows "tokenFile_truthy s \<Longrightarrow>
      pending_reads (onClose pf s) = Suc (pending_reads s) \<and> sockets (onClose pf s) = sockets s"
    and "\<not> tokenFile_truthy s \<Longrightarrow> WebSocket_accepts pf (webSocketUrl (host s) (name s) []) \<Longrightarrow>
      length (sockets (onClose pf s)) = Suc (length (sockets s))
      \<and> socket (onClose pf s) = Some (length (sockets s))
      \<and> readyState (last (sockets (onClose pf s))) = CONNECTING
      \<and> pending_reads (onClose pf s) = pending_reads s"
    and "\<not> tokenFile_truthy s \<Longrightarrow> \<not> WebSocket_accepts pf (webSocketUrl (host s) (name s) []) \<Longrightarrow>
      length (sockets (onClose pf s)) = length (sockets s) \<and> socket (onClose pf s) = None
      \<and> pending_reads (onClose pf s) = pending_reads s"
proof -
  define c where "c = (case pingTimeout s of None \<Rightarrow> log Info ''WebSocket connection closed'' [] s
         | Some h \<Rightarrow> clearTimeout h (log Info ''WebSocket connection closed'' [] s))
        \<lparr>socket := None, connected := False\<rparr>"
  have c: "sockets c = sockets s" "pending_reads c = pending_reads s" "host c = host s"
    "name c = name s" "tokenFile_truthy c = tokenFile_truthy s" "socket c = None"
    "\<not> connected c" "shouldReconnect c"
    using assms by (simp_all add: c_def tokenFile_truthy_def split: option.splits)
  have t: "terminate_socket c = c" and g: "\<not> connect_guard c"
    using c(6) by (simp_all add: terminate_socket_eq connect_guard_def)
  have e: "onClose pf s = fst (connect pf c)"
    using c(7,8) by (simp add: onClose_eq c_def [symmetric] reconnect_eq)
  show "pending_reads (onClose pf s) = Suc (pending_reads s) \<and> sockets (onClose pf s) = sockets s"
    if "tokenFile_truthy s"
    using that g by (simp add: e connect_def t c)
  show "length (sockets (onClose pf s)) = Suc (length (sockets s))
      \<and> socket (onClose pf s) = Some (length (sockets s))
      \<and> readyState (last (sockets (onClose pf s))) = CONNECTING
      \<and> pending_reads (onClose pf s) = pending_reads s"
    if "\<not> tokenFile_truthy s" "WebSocket_accepts pf (webSocketUrl (host s) (name s) [])"
    using that g connect_finish_accepted [of pf c "[]"]
    by (simp add: e connect_def t c case_prod_beta)
  show "length (sockets (onClose pf s)) = length (sockets s) \<and> socket (onClose pf s) = None
      \<and> pending_reads (onClose pf s) = pending_reads s"
    if "\<not> tokenFile_truthy s" "\<not> WebSocket_accepts pf (webSocketUrl (host s) (name s) [])"
    using that g connect_finish_refused [of pf c "[]"]
    by (simp add: e connect_def t c case_prod_beta)
qed

text \<open>
  Claim C6. A close event of a transport while \<open>shouldReconnect\<close> is set runs \<open>connect()\<close>
  within the handler. In every state the manager reaches, with a token file the read is
  started, and without one the new transport is constructed at once: \<open>shouldReconnect\<close> is
  only set once a transport with the same host and name has been constructed, so the
  constructor accepts the address again. In an arbitrary state the constructor may also
  refuse the address, and then no transport is constructed. In a state the manager reaches
  with \<open>shouldReconnect\<close> set, \<open>connect()\<close> resolves to \<open>true\<close> within the call unless it
  suspends at the read of the token file. \<open>reconnect()\<close> never takes its retry branch: a call
  of \<open>connect()\<close> never yields \<open>false\<close>, so \<open>reconnect()\<close> is the guard followed by
  \<open>connect()\<close>, and in every state the manager reaches every armed timer is a heartbeat
  timer.
\<close>

theorem close_reconnects_without_delay:
  "(let r = run pf es (Api_new h n hs tf t0)
    in (i < length (sockets r) \<and> readyState (sockets r ! i) \<noteq> CLOSED \<and> shouldReconnect r \<longrightarrow>
          (let r' = handle pf (WsClose i) r
           in if tokenFile_truthy r
              then pending_reads r' = Suc (pending_reads r) \<and> length (sockets r') = length (sockets r)
              else length (sockets r') = Suc (length (sockets r))
                   \<and> socket r' = Some (length (sockets r))
                   \<and> readyState (last (sockets r')) = CONNECTING
                   \<and> pending_reads r' = pending_reads r))
       \<and> (shouldReconnect r \<longrightarrow>
            snd (connect pf r) =
              (if \<not> connect_guard r \<and> tokenFile_truthy r then Pending else Resolved True))
       \<and> (\<forall>t \<in> set (timers r). snd (snd t) = HeartbeatTimeout))
   \<and> (j < length (sockets s) \<and> readyState (sockets s ! j) \<noteq> CLOSED \<and> shouldReconnect s \<longrightarrow>
        (let s' = handle pf (WsClose j) s
         in if tokenFile_truthy s
            then pending_reads s' = Suc (pending_reads s) \<and> length (sockets s') = length (sockets s)
            else if WebSocket_accepts pf (webSocketUrl (host s) (name s) [])
            then length (sockets s') = Suc (length (sockets s))
                 \<and> socket s' = Some (length (sockets s))
                 \<and> readyState (last (sockets s')) = CONNECTING
                 \<and> pending_reads s' = pending_reads s
            else length (sockets s') = length (sockets s) \<and> socket s' = None
                 \<and> pending_reads s' = pending_reads s))
   \<and> reconnect pf s = (if connected s \<or> \<not> shouldReconnect s then s else fst (connect pf s))
   \<and> snd (connect pf s) \<noteq> Resolved False \<and> snd (connect_read_done pf rd s) \<noteq> Inr False"
proof -
  have gen: "(let s' = handle pf (WsClose j) s
         in if tokenFile_truthy s
            then pending_reads s' = Suc (pending_reads s) \<and> length (sockets s') = length (sockets s)
            else if WebSocket_accepts pf (webSocketUrl (host s) (name s) [])
            then length (sockets s') = Suc (length (sockets s))
                 \<and> socket s' = Some (length (sockets s))
                 \<and> readyState (last (sockets s')) = CONNECTING
                 \<and> pending_reads s' = pending_reads s
            else length (sockets s') = length (sockets s) \<and> socket s' = None
                 \<and> pending_reads s' = pending_reads s)"
    if "j < length (sockets s)" "readyState (sockets s ! j) \<noteq> CLOSED" "shouldReconnect s"
    for j s
  proof -
    define c where "c = set_readyState j CLOSED s"
    have c: "shouldReconnect c" "tokenFile_truthy c = tokenFile_truthy s"
      "length (sockets c) = length (sockets s)" "pending_reads c = pending_reads s"
      "host c = host s" "name c = name s"
      using that by (simp_all add: c_def tokenFile_truthy_def set_readyState_def)
    have "handle pf (WsClose j) s = onClose pf c"
      using that by (simp add: c_def)
    then show ?thesis
      using onClose_reconnects [OF c(1), of pf] c(2-6) by (simp add: Let_def)
  qed
  define r where "r = run pf es (Api_new h n hs tf t0)"
  have inv: "url_tried pf r" and ok: "timers_ok r"
    unfolding r_def by (rule url_tried_reachable, rule timers_ok_reachable)
  have acc: "WebSocket_accepts pf (webSocketUrl (host r) (name r) [])"
    if "shouldReconnect r" "\<not> tokenFile_truthy r"
    using inv that by (auto simp: url_tried_def)
  have a: "(let r' = handle pf (WsClose i) r
           in if tokenFile_truthy r
              then pending_reads r' = Suc (pending_reads r) \<and> length (sockets r') = length (sockets r)
              else length (sockets r') = Suc (length (sockets r))
                   \<and> socket r' = Some (length (sockets r))
                   \<and> readyState (last (sockets r')) = CONNECTING
                   \<and> pending_reads r' = pending_reads r)"
    if "i < length (sockets r)" "readyState (sockets r ! i) \<noteq> CLOSED" "shouldReconnect r"
    using gen [OF that] acc [OF that(3)] by (simp add: Let_def split: if_splits)
  have b: "\<forall>t \<in> set (timers r). snd (snd t) = HeartbeatTimeout"
    using ok by (auto simp: timers_ok_iff)
  have c: "snd (connect pf r) =
      (if \<not> connect_guard r \<and> tokenFile_truthy r then Pending else Resolved True)"
    if "shouldReconnect r"
  proof (cases "connect_guard r \<or> tokenFile_truthy r")
    case True
    then show ?thesis
      by (auto simp: connect_def Let_def tokenFile_truthy_def)
  next
    case False
    with acc [OF that] have "snd (connect_finish pf [] (terminate_socket r)) = Inr True"
      using connect_finish_accepted(3) [of pf "terminate_socket r" "[]"] by simp
    with False show ?thesis
      by (simp add: connect_def Let_def case_prod_beta tokenFile_truthy_def)
  qed
  show ?thesis
    using a b c gen [of j s] reconnect_eq [of pf s] connect_reports_success [of pf s]
      connect_read_done_reports_success [of pf rd s]
    unfolding r_def [symmetric] Let_def by blast
qed

text \<open>
  The theorem at a run: one connection is opened without a token file and then closes; the
  second transport is constructed within the close handler and no timer is armed.
\<close>

theorem close_reconnects_without_delay_witness:
  "(let s = run example_platform [CallConnect, WsOpen 0] (Api_new ''192.168.1.10'' None None None 0);
        s' = handle example_platform (WsClose 0) s
    in 0 < length (sockets s) \<and> readyState (sockets s ! 0) \<noteq> CLOSED \<and> shouldReconnect s
       \<and> \<not> tokenFile_truthy s
       \<and> length (sockets s') = 2 \<and> socket s' = Some 1 \<and> readyState (last (sockets s')) = CONNECTING
       \<and> timers s' = [])"
proof -
  define s where "s = run example_platform [CallConnect, WsOpen 0] (Api_new ''192.168.1.10'' None None None 0)"
  have h: "0 < length (sockets s)" "readyState (sockets s ! 0) \<noteq> CLOSED" "shouldReconnect s"
    "\<not> tokenFile_truthy s" "length (sockets s) = 1"
    by (simp_all add: s_def eval_defs)
  from close_reconnects_without_delay [of example_platform "[CallConnect, WsOpen 0]"
      "''192.168.1.10''" None None None 0 0 0 s "Inl []", folded s_def] h
  have "length (sockets (handle example_platform (WsClose 0) s)) = 2
      \<and> socket (handle example_platform (WsClose 0) s) = Some 1
      \<and> readyState (last (sockets (handle example_platform (WsClose 0) s))) = CONNECTING"
    unfolding Let_def by simp
  moreover have "timers (handle example_platform (WsClose 0) s) = []"
    by (simp add: s_def eval_defs)
  ultimately show ?thesis
    using h unfolding s_def [symmetric] Let_def by simp
qed

section \<open>Expiry of the heartbeat\<close>

text \<open>
  A long run is evaluated one event at a time: each state is written as the state before
  it with the fields the event changes.
\<close>

lemmas step_defs = Api_new_def connect_def connect_guard_def tokenFile_truthy_def terminate_socket_eq
  connect_finish_def connect_read_done_def utf8_roundtrip_def log_def Let_def ws_terminate_def
  heartbeat_def onOpen_def onClose_def onError.simps onMessage_def reconnect_def example_platform_def
  setTimeout_def clearTimeout_def set_readyState_def emit_message_def saveToken_def fire_timer_def
  run_callback_def receiving_def disconnect_def EVENTS_HEARTBEAT_INTERVAL_MS_def example_parse_def

lemma example_accepts_url:
  "example_accepts (webSocketUrl ''192.168.1.10'' ''SamsungTvRemote'' [])"
  by (simp add: example_accepts_def webSocketUrl_def WSS_PORT_def)

text \<open>
  Claim C5. The callback of the heartbeat timer terminates \<open>this.socket\<close>, and the close
  handler of a transport clears \<open>this.socket\<close> and the heartbeat timer whichever transport
  emitted the event. Here a connection is opened, and \<open>disconnect()\<close> and \<open>connect()\<close> are
  called in one turn: the second transport is constructed before the close event of the
  first arrives, and that event clears the handle of the second. The second transport
  opens, which arms the heartbeat, and 20 s pass without a frame. The expiry finds no
  handle and terminates nothing: the transport stays \<open>OPEN\<close>, \<open>connected\<close> stays true, no
  timer is armed any more, and nothing else changes, so no close handling follows.
\<close>

theorem heartbeat_expiry_misses_transport:
  "(let s = run example_platform
              [CallConnect, WsOpen 0, CallDisconnect, CallConnect, WsClose 0, WsOpen 1, Advance 20000]
              (Api_new ''192.168.1.10'' None None None 0);
        s' = handle example_platform (TimerFire 1) s
    in length (sockets s) = 2 \<and> readyState (sockets s ! 0) = CLOSED
       \<and> readyState (sockets s ! 1) = OPEN \<and> connected s \<and> shouldReconnect s
       \<and> socket s = None
       \<and> timers s = [(1, 20000, HeartbeatTimeout)] \<and> pingTimeout s = Some 1 \<and> clock s = 20000
       \<and> s' = s\<lparr>timers := []\<rparr>
       \<and> readyState (sockets s' ! 1) = OPEN \<and> connected s' \<and> socket s' = None
       \<and> timers s' = [] \<and> console s' = console s)"
proof -
  define u where "u = webSocketUrl ''192.168.1.10'' ''SamsungTvRemote'' []"
  define w where "w r = \<lparr>url = u, ws_headers = [], rejectUnauthorized = False,
    readyState = r, saveToken_listener = False\<rparr>" for r
  define s1 where "s1 = (Api_new ''192.168.1.10'' None None None 0)
    \<lparr>sockets := [w CONNECTING], socket := Some 0,
     console := [(Debug, ''Connecting to ws server url: %s'', [ArgStr u])]\<rparr>"
  define s2 where "s2 = s1
    \<lparr>sockets := [w OPEN], connected := True, shouldReconnect := True, pingTimeout := Some 0,
     timers := [(0, 20000, HeartbeatTimeout)], next_timer := 1,
     console := console s1 @ [(Info, ''Connected to SamsungTV websocket server for event updates'', [])]\<rparr>"
  define s3 where "s3 = s2\<lparr>shouldReconnect := False, sockets := [w CLOSING]\<rparr>"
  define s4 where "s4 = s3
    \<lparr>sockets := [w CLOSING, w CONNECTING], socket := Some 1,
     console := console s3 @ [(Debug, ''Connecting to ws server url: %s'', [ArgStr u])]\<rparr>"
  define s5 where "s5 = s4
    \<lparr>sockets := [w CLOSED, w CONNECTING], socket := None, connected := False, timers := [],
     console := console s4 @ [(Info, ''WebSocket connection closed'', [])]\<rparr>"
  define s6 where "s6 = s5
    \<lparr>sockets := [w CLOSED, w OPEN], connected := True, shouldReconnect := True,
     pingTimeout := Some 1, timers := [(1, 20000, HeartbeatTimeout)], next_timer := 2,
     console := console s5 @ [(Info, ''Connected to SamsungTV websocket server for event updates'', [])]\<rparr>"
  define s7 where "s7 = s6\<lparr>clock := 20000\<rparr>"
  note states = s7_def s6_def s5_def s4_def s3_def s2_def s1_def w_def
  note a = example_accepts_url [folded u_def]
  have 1: "handle example_platform CallConnect (Api_new ''192.168.1.10'' None None None 0) = s1"
    using a by (simp add: states u_def [symmetric] step_defs)
  have 2: "handle example_platform (WsOpen 0) s1 = s2"
    by (simp add: states step_defs)
  have 3: "handle example_platform CallDisconnect s2 = s3"
    by (simp add: states step_defs)
  have 4: "handle example_platform CallConnect s3 = s4"
    using a by (simp add: states u_def [symmetric] step_defs)
  have 5: "handle example_platform (WsClose 0) s4 = s5"
    by (simp add: states step_defs)
  have 6: "handle example_platform (WsOpen 1) s5 = s6"
    by (simp add: states step_defs)
  have 7: "handle example_platform (Advance 20000) s6 = s7"
    by (simp add: states step_defs)
  have 8: "handle example_platform (TimerFire 1) s7 = s7\<lparr>timers := []\<rparr>"
    by (simp add: states step_defs)
  have r: "run example_platform
      [CallConnect, WsOpen 0, CallDisconnect, CallConnect, WsClose 0, WsOpen 1, Advance 20000]
      (Api_new ''192.168.1.10'' None None None 0) = s7"
    by (simp only: run.simps 1 2 3 4 5 6 7)
  have f: "length (sockets s7) = 2" "readyState (sockets s7 ! 0) = CLOSED"
    "readyState (sockets s7 ! 1) = OPEN" "connected s7" "shouldReconnect s7" "socket s7 = None"
    "timers s7 = [(1, 20000, HeartbeatTimeout)]" "pingTimeout s7 = Some 1" "clock s7 = 20000"
    by (simp_all add: states)
  show ?thesis
    unfolding Let_def r 8 using f by simp
qed

section \<open>Capture of the token\<close>

text \<open>
  Claim C2. The closure \<open>saveToken\<close> removes itself with \<open>this.socket?.off\<close>, that is from
  the transport that is current when a token arrives, not from the transport it was
  registered on. Two runs with a token file whose read fails. In the first a connection is
  opened and \<open>disconnect()\<close> and \<open>connect()\<close> are called in one turn; the read of the second
  call completes and the second transport is constructed before the close event of the
  first arrives, which clears \<open>this.socket\<close>. In the second \<open>connect()\<close> is called twice
  before the first read completes, so two transports are constructed and the second is the
  current one. In both an open transport that is not \<open>this.socket\<close> then receives two
  acknowledgements with a token: each is written to the token file, and the handler is
  still registered afterwards.
\<close>

theorem token_captured_twice:
  "(let new = Api_new ''192.168.1.10'' None None (Some ''/config/token'') 0;
        s = run example_platform
              [CallConnect, ReadFileDone (Inl ''ENOENT''), WsOpen 0, CallDisconnect,
               CallConnect, ReadFileDone (Inl ''ENOENT''), WsClose 0, WsOpen 1] new;
        s' = run example_platform
              [WsMessage 1 ''{\"event\":\"ms.channel.connect\",\"data\":{\"token\":\"NEWTOK\"}}'',
               WsMessage 1 ''{\"event\":\"ms.channel.connect\",\"data\":{\"token\":\"OTHER\"}}''] s;
        c = run example_platform
              [CallConnect, CallConnect, ReadFileDone (Inl ''ENOENT''),
               ReadFileDone (Inl ''ENOENT''), WsOpen 0] new;
        c' = run example_platform
              [WsMessage 0 ''{\"event\":\"ms.channel.connect\",\"data\":{\"token\":\"NEWTOK\"}}'',
               WsMessage 0 ''{\"event\":\"ms.channel.connect\",\"data\":{\"token\":\"OTHER\"}}''] c
    in length (sockets s) = 2 \<and> readyState (sockets s ! 0) = CLOSED
       \<and> readyState (sockets s ! 1) = OPEN \<and> saveToken_listener (sockets s ! 1)
       \<and> connected s \<and> socket s = None \<and> writes s = []
       \<and> writes s' = [(''/config/token'', JStr ''NEWTOK''), (''/config/token'', JStr ''OTHER'')]
       \<and> saveToken_listener (sockets s' ! 1)
       \<and> length (sockets c) = 2 \<and> readyState (sockets c ! 0) = OPEN
       \<and> saveToken_listener (sockets c ! 0) \<and> connected c \<and> socket c = Some 1 \<and> writes c = []
       \<and> writes c' = [(''/config/token'', JStr ''NEWTOK''), (''/config/token'', JStr ''OTHER'')]
       \<and> saveToken_listener (sockets c' ! 0))"
proof -
  define u where "u = webSocketUrl ''192.168.1.10'' ''SamsungTvRemote'' []"
  define w where "w r = \<lparr>url = u, ws_headers = [], rejectUnauthorized = False,
    readyState = r, saveToken_listener = True\<rparr>" for r
  define constructed where "constructed =
    [(Warn, ''Unable to find token: {}'', [ArgErr ''ENOENT'']),
     (Debug, ''Connecting to ws server url: %s'', [ArgStr u]),
     (Info, ''Registering token file save handler'', [])]"
  define opened where "opened =
    [(Info, ''Connected to SamsungTV websocket server for event updates'', [] :: log_arg list)]"
  define saved where "saved t =
    [(Info, ''Saving token:'', [ArgJson (JStr t)]),
     (Info, ''Unregistering token file save handler'', [])]" for t
  define s1 where "s1 = (Api_new ''192.168.1.10'' None None (Some ''/config/token'') 0)
    \<lparr>pending_reads := 1\<rparr>"
  define s2 where "s2 = s1
    \<lparr>pending_reads := 0, sockets := [w CONNECTING], socket := Some 0, console := constructed\<rparr>"
  define s3 where "s3 = s2
    \<lparr>sockets := [w OPEN], connected := True, shouldReconnect := True, pingTimeout := Some 0,
     timers := [(0, 20000, HeartbeatTimeout)], next_timer := 1, console := console s2 @ opened\<rparr>"
  define s4 where "s4 = s3\<lparr>shouldReconnect := False, sockets := [w CLOSING]\<rparr>"
  define s5 where "s5 = s4\<lparr>pending_reads := 1\<rparr>"
  define s6 where "s6 = s5
    \<lparr>pending_reads := 0, sockets := [w CLOSING, w CONNECTING], socket := Some 1,
     console := console s5 @ constructed\<rparr>"
  define s7 where "s7 = s6
    \<lparr>sockets := [w CLOSED, w CONNECTING], socket := None, connected := False, timers := [],
     console := console s6 @ [(Info, ''WebSocket connection closed'', [])]\<rparr>"
  define s8 where "s8 = s7
    \<lparr>sockets := [w CLOSED, w OPEN], connected := True, shouldReconnect := True,
     pingTimeout := Some 1, timers := [(1, 20000, HeartbeatTimeout)], next_timer := 2,
     console := console s7 @ opened\<rparr>"
  define s9 where "s9 = s8
    \<lparr>pingTimeout := Some 2, timers := [(2, 20000, HeartbeatTimeout)], next_timer := 3,
     writes := [(''/config/token'', JStr ''NEWTOK'')], console := console s8 @ saved ''NEWTOK''\<rparr>"
  define s10 where "s10 = s9
    \<lparr>pingTimeout := Some 3, timers := [(3, 20000, HeartbeatTimeout)], next_timer := 4,
     writes := [(''/config/token'', JStr ''NEWTOK''), (''/config/token'', JStr ''OTHER'')],
     console := console s9 @ saved ''OTHER''\<rparr>"
  define c2 where "c2 = s1\<lparr>pending_reads := 2\<rparr>"
  define c3 where "c3 = c2
    \<lparr>pending_reads := 1, sockets := [w CONNECTING], socket := Some 0, console := constructed\<rparr>"
  define c4 where "c4 = c3
    \<lparr>pending_reads := 0, sockets := [w CONNECTING, w CONNECTING], socket := Some 1,
     console := console c3 @ constructed\<rparr>"
  define c5 where "c5 = c4
    \<lparr>sockets := [w OPEN, w CONNECTING], connected := True, shouldReconnect := True,
     pingTimeout := Some 0, timers := [(0, 20000, HeartbeatTimeout)], next_timer := 1,
     console := console c4 @ opened\<rparr>"
  define c6 where "c6 = c5
    \<lparr>pingTimeout := Some 1, timers := [(1, 20000, HeartbeatTimeout)], next_timer := 2,
     writes := [(''/config/token'', JStr ''NEWTOK'')], console := console c5 @ saved ''NEWTOK''\<rparr>"
  define c7 where "c7 = c6
    \<lparr>pingTimeout := Some 2, timers := [(2, 20000, HeartbeatTimeout)], next_timer := 3,
     writes := [(''/config/token'', JStr ''NEWTOK''), (''/config/token'', JStr ''OTHER'')],
     console := console c6 @ saved ''OTHER''\<rparr>"
  note states = s10_def s9_def s8_def s7_def s6_def s5_def s4_def s3_def s2_def s1_def
    c7_def c6_def c5_def c4_def c3_def c2_def w_def constructed_def opened_def saved_def
  note a = example_accepts_url [folded u_def]
  have 1: "handle example_platform CallConnect
      (Api_new ''192.168.1.10'' None None (Some ''/config/token'') 0) = s1"
    by (simp add: states step_defs)
  have 2: "handle example_platform (ReadFileDone (Inl ''ENOENT'')) s1 = s2"
    using a by (simp add: states u_def [symmetric] step_defs)
  have 3: "handle example_platform (WsOpen 0) s2 = s3"
    by (simp add: states step_defs)
  have 4: "handle example_platform CallDisconnect s3 = s4"
    by (simp add: states step_defs)
  have 5: "handle example_platform CallConnect s4 = s5"
    by (simp add: states step_defs)
  have 6: "handle example_platform (ReadFileDone (Inl ''ENOENT'')) s5 = s6"
    using a by (simp add: states u_def [symmetric] step_defs)
  have 7: "handle example_platform (WsClose 0) s6 = s7"
    by (simp add: states step_defs)
  have 8: "handle example_platform (WsOpen 1) s7 = s8"
    by (simp add: states step_defs)
  have 9: "handle example_platform
      (WsMessage 1 ''{\"event\":\"ms.channel.connect\",\"data\":{\"token\":\"NEWTOK\"}}'') s8 = s9"
    by (simp add: states step_defs)
  have 10: "handle example_platform
      (WsMessage 1 ''{\"event\":\"ms.channel.connect\",\"data\":{\"token\":\"OTHER\"}}'') s9 = s10"
    by (simp add: states step_defs)
  have 11: "handle example_platform CallConnect s1 = c2"
    by (simp add: states step_defs)
  have 12: "handle example_platform (ReadFileDone (Inl ''ENOENT'')) c2 = c3"
    using a by (simp add: states u_def [symmetric] step_defs)
  have 13: "handle example_platform (ReadFileDone (Inl ''ENOENT'')) c3 = c4"
    using a by (simp add: states u_def [symmetric] step_defs)
  have 14: "handle example_platform (WsOpen 0) c4 = c5"
    by (simp add: states step_defs)
  have 15: "handle example_platform
      (WsMessage 0 ''{\"event\":\"ms.channel.connect\",\"data\":{\"token\":\"NEWTOK\"}}'') c5 = c6"
    by (simp add: states step_defs)
  have 16: "handle example_platform
      (WsMessage 0 ''{\"event\":\"ms.channel.connect\",\"data\":{\"token\":\"OTHER\"}}'') c6 = c7"
    by (simp add: states step_defs)
  have r: "run example_platform
      [CallConnect, ReadFileDone (Inl ''ENOENT''), WsOpen 0, CallDisconnect,
       CallConnect, ReadFileDone (Inl ''ENOENT''), WsClose 0, WsOpen 1]
      (Api_new ''192.168.1.10'' None None (Some ''/config/token'') 0) = s8"
    "run example_platform
      [WsMessage 1 ''{\"event\":\"ms.channel.connect\",\"data\":{\"token\":\"NEWTOK\"}}'',
       WsMessage 1 ''{\"event\":\"ms.channel.connect\",\"data\":{\"token\":\"OTHER\"}}''] s8 = s10"
    "run example_platform
      [CallConnect, CallConnect, ReadFileDone (Inl ''ENOENT''), ReadFileDone (Inl ''ENOENT''),
       WsOpen 0]
      (Api_new ''192.168.1.10'' None None (Some ''/config/token'') 0) = c5"
    "run example_platform
      [WsMessage 0 ''{\"event\":\"ms.channel.connect\",\"data\":{\"token\":\"NEWTOK\"}}'',
       WsMessage 0 ''{\"event\":\"ms.channel.connect\",\"data\":{\"token\":\"OTHER\"}}''] c5 = c7"
    by (simp_all only: run.simps 1 2 3 4 5 6 7 8 9 10 11 12 13 14 15 16)
  have f: "length (sockets s8) = 2" "readyState (sockets s8 ! 0) = CLOSED"
    "readyState (sockets s8 ! 1) = OPEN" "saveToken_listener (sockets s8 ! 1)"
    "connected s8" "socket s8 = None" "writes s8 = []"
    "writes s10 = [(''/config/token'', JStr ''NEWTOK''), (''/config/token'', JStr ''OTHER'')]"
    "saveToken_listener (sockets s10 ! 1)"
    "length (sockets c5) = 2" "readyState (sockets c5 ! 0) = OPEN"
    "saveToken_listener (sockets c5 ! 0)" "connected c5" "socket c5 = Some 1" "writes c5 = []"
    "writes c7 = [(''/config/token'', JStr ''NEWTOK''), (''/config/token'', JStr ''OTHER'')]"
    "saveToken_listener (sockets c7 ! 0)"
    by (simp_all add: states Api_new_def)
  show ?thesis
    unfolding Let_def r using f by simp
qed

end
